theory Spec2Isabelle
  imports Main
begin

section \<open>Data model of \<open>app/lib/services/supabase-persistence.ts\<close>\<close>

text \<open>
  The TypeScript interfaces become records. An optional field (\<open>id?: string\<close>) is an
  \<open>option\<close>. Field names carry a prefix because record selectors are global in HOL.
  A \<open>Record<string, any>\<close> blob is kept as its serialised text. The \<open>length\<close> of a
  string stands for the \<open>.length\<close> of the source, a count of UTF-16 code units; the
  two agree on ASCII contents.
\<close>

type_synonym json = string

record UserContext =
  userId :: string
  clerkUserId :: string

record DesignFile =
  dfId :: "string option"
  dfProjectId :: string
  dfFilePath :: string
  dfFileType :: string
  dfContent :: string
  dfFileSize :: "nat option"
  dfLastModified :: "nat option"

record ProjectFile =
  pfId :: "string option"
  pfProjectId :: string
  pfFilePath :: string
  pfContent :: string
  pfIsBinary :: "bool option"
  pfMimeType :: "string option"
  pfFileSize :: "nat option"
  pfIsDeleted :: "bool option"

record ChatMessage =
  cmId :: "string option"
  cmProjectId :: string
  cmRole :: string
  cmContent :: string
  cmModelUsed :: "string option"
  cmTokensUsed :: "nat option"
  cmResponseTimeMs :: "nat option"
  cmGeneratedScreens :: "string list option"

record UserSettings =
  theme :: "string option"
  providerSettings :: "json option"
  autoEnabledProviders :: "string list option"
  mcpSettings :: "json option"
  githubConnection :: "json option"
  gitlabConnection :: "json option"
  vercelConnection :: "json option"
  netlifyConnection :: "json option"
  supabaseConnection :: "json option"
  viewedFeatures :: "string list option"

text \<open>The \<open>Message\<close> of the \<open>ai\<close> package, as far as \<open>getChatHistory\<close> fills it.\<close>

record Message =
  msgId :: string
  msgRole :: string
  msgContent :: string

subsection \<open>The remote store\<close>

text \<open>
  The remote store is an external collaborator reached through the query builder of the
  client library. It is modelled as one list of rows per table, with the columns the
  service reads and writes (the generated \<open>Database\<close> type is not part of the sources).
  Instants (\<open>Date.now()\<close>, \<open>new Date().toISOString()\<close>, column defaults) are naturals.
\<close>

record user_row =
  user_id :: string
  user_clerk_user_id :: string
  user_email :: string
  user_full_name :: "string option"
  user_last_login_at :: nat

record chat_row =
  chat_id :: string
  chat_project_id :: string
  chat_user_id :: string
  chat_role :: string
  chat_content :: string
  chat_model_used :: "string option"
  chat_tokens_used :: "nat option"
  chat_response_time_ms :: "nat option"
  chat_generated_screens :: "string list"
  chat_created_at :: nat

record project_row =
  project_id :: string
  project_user_id :: string
  project_name :: string
  project_description :: "string option"
  project_status :: string
  project_updated_at :: nat
  project_canvas_state :: "json option"

record design_row =
  design_id :: string
  design_project_id :: string
  design_user_id :: string
  design_file_path :: string
  design_file_type :: string
  design_content :: string
  design_file_size :: nat
  design_last_modified :: nat

record pfile_row =
  pfile_id :: string
  pfile_project_id :: string
  pfile_user_id :: string
  pfile_file_path :: string
  pfile_content :: string
  pfile_is_binary :: bool
  pfile_mime_type :: "string option"
  pfile_file_size :: nat
  pfile_is_deleted :: bool
  pfile_deleted_at :: "nat option"

record settings_row =
  settings_user_id :: string
  settings_theme :: "string option"
  settings_provider_settings :: json
  settings_auto_enabled_providers :: "string list"
  settings_mcp_settings :: json
  settings_github_connection :: "json option"
  settings_gitlab_connection :: "json option"
  settings_vercel_connection :: "json option"
  settings_netlify_connection :: "json option"
  settings_supabase_connection :: "json option"
  settings_viewed_features :: "string list"

text \<open>
  What one request to the store comes back with: \<open>Done\<close> is \<open>{ data, error: null }\<close>,
  \<open>Failed\<close> is \<open>{ data: null, error }\<close>, \<open>Thrown\<close> is a rejected promise (the
  \<open>catch\<close> blocks of the service). The store carries the script of the outcomes of the
  requests still to come (an exhausted script means the request succeeds) and counts the
  requests it was sent, so that "no remote call was attempted" can be said.
\<close>

datatype outcome = Done | Failed | Thrown

record remote_store =
  users :: "user_row list"
  chat_history :: "chat_row list"
  projects :: "project_row list"
  design_files :: "design_row list"
  project_files :: "pfile_row list"
  user_settings :: "settings_row list"
  users_unique :: bool
  next_id :: nat
  calls :: nat
  outcomes :: "outcome list"

definition next_outcome :: "remote_store \<Rightarrow> outcome" where
  "next_outcome d = (case outcomes d of [] \<Rightarrow> Done | r # _ \<Rightarrow> r)"

definition consume :: "remote_store \<Rightarrow> remote_store" where
  "consume d = d\<lparr>calls := Suc (calls d), outcomes := tl (outcomes d)\<rparr>"

text \<open>A write request: sent in any case, applied only when it succeeds.\<close>

definition request :: "(remote_store \<Rightarrow> remote_store) \<Rightarrow> remote_store \<Rightarrow> outcome \<times> remote_store" where
  "request f d =
     (let r = next_outcome d; d' = consume d
      in (r, if r = Done then f d' else d'))"

text \<open>\<open>.single()\<close>: the row when exactly one matches, an error otherwise.\<close>

fun single :: "'a list \<Rightarrow> 'a option" where
  "single [x] = Some x"
| "single _ = None"

text \<open>Rendering of a number inside a template literal, and of a generated row id.\<close>

function show_nat :: "nat \<Rightarrow> string" where
  "show_nat n =
     (if n < 10 then [char_of (48 + n)]
      else show_nat (n div 10) @ [char_of (48 + n mod 10)])"
  by pat_completeness auto
termination
  by (relation "measure id") auto

declare show_nat.simps [simp del]

definition fresh_id :: "remote_store \<Rightarrow> string" where
  "fresh_id d = ''row-'' @ show_nat (next_id d)"

text \<open>
  \<open>upsert(row, { onConflict })\<close>: a row with the same conflict key is overwritten in the
  columns the request names (\<open>merge old new\<close>), otherwise the row is inserted. A
  property that is \<open>undefined\<close> is left out of the request body, so on a conflict such a
  column keeps the value the store has (\<open>keep_old\<close>).
\<close>

definition keep_old :: "'a option \<Rightarrow> 'a option \<Rightarrow> 'a option" where
  "keep_old old new = (case new of None \<Rightarrow> old | Some v \<Rightarrow> Some v)"

definition upsert :: "('r \<Rightarrow> 'k) \<Rightarrow> ('r \<Rightarrow> 'r \<Rightarrow> 'r) \<Rightarrow> 'r \<Rightarrow> 'r list \<Rightarrow> 'r list" where
  "upsert key merge row rows =
     (if \<exists>r \<in> set rows. key r = key row
      then map (\<lambda>r. if key r = key row then merge r row else r) rows
      else rows @ [row])"

subsection \<open>The service object and its surroundings\<close>

text \<open>
  One entry of \<open>offlineQueue\<close>: \<open>{ type, data, timestamp }\<close>. \<open>data\<close> is \<open>any\<close> in the
  source; the three payloads that reach \<open>queueOperation\<close> are its variants.
\<close>

datatype payload = PChat ChatMessage | PDesign DesignFile | PProject ProjectFile

record queued_op =
  op_type :: string
  op_data :: payload
  op_timestamp :: nat

text \<open>
  The private fields of \<open>SupabasePersistenceService\<close>. \<open>supabase\<close> is the client handle
  or \<open>null\<close>; the handle itself has no state of its own, so a flag stands for it.
\<close>

record service =
  supabase :: bool
  userContext :: "UserContext option"
  isOnline :: bool
  offlineQueue :: "queued_op list"

text \<open>
  The world one client runs in: the service instance, the remote store, the browser's
  \<open>localStorage\<close> (\<open>None\<close> where \<open>typeof localStorage\<close> is \<open>'undefined'\<close>) and the clock.
  \<open>JSON.stringify\<close> of the queue is kept as the queue itself, and \<open>setItem\<close> is taken
  to succeed; the writes are given a second time further down for a browser that
  refuses the storage write. An \<open>async\<close> method runs to its end as one step on the
  world; only \<open>ensureUser\<close> is also given in the two halves its \<open>await\<close> separates.
\<close>

record world =
  svc :: service
  db :: remote_store
  localStorage :: "(string \<rightharpoonup> queued_op list) option"
  clock :: nat

definition setItem :: "string \<Rightarrow> queued_op list \<Rightarrow> world \<Rightarrow> world" where
  "setItem k v w =
     (case localStorage w of
        None \<Rightarrow> w
      | Some m \<Rightarrow> w\<lparr>localStorage := Some (m(k \<mapsto> v))\<rparr>)"

definition getItem :: "string \<Rightarrow> world \<Rightarrow> queued_op list option" where
  "getItem k w = (case localStorage w of None \<Rightarrow> None | Some m \<Rightarrow> m k)"

text \<open>The module-level environment the constructor reads.\<close>

record env =
  supabaseUrl :: "string option"
  supabaseAnonKey :: "string option"
  createClient_throws :: bool
  navigator_onLine :: "bool option"

definition truthy :: "string option \<Rightarrow> bool" where
  "truthy s = (case s of None \<Rightarrow> False | Some v \<Rightarrow> v \<noteq> [])"

text \<open>
  \<open>constructor()\<close> with the field initialisers: the handle exists when both credentials
  are truthy and \<open>createClient\<close> does not throw; \<open>isOnline\<close> is \<open>navigator.onLine\<close> where
  there is a navigator and \<open>true\<close> otherwise; \<open>offlineQueue\<close> starts as \<open>[]\<close>. Nothing is
  read from \<open>localStorage\<close>.
\<close>

definition constructor :: "env \<Rightarrow> service" where
  "constructor e =
     \<lparr> supabase = (truthy (supabaseUrl e) \<and> truthy (supabaseAnonKey e) \<and> \<not> createClient_throws e),
       userContext = None,
       isOnline = (case navigator_onLine e of None \<Rightarrow> True | Some b \<Rightarrow> b),
       offlineQueue = [] \<rparr>"

text \<open>A page load: a new instance in the same browser, against the same store.\<close>

definition restart :: "env \<Rightarrow> world \<Rightarrow> world" where
  "restart e w = w\<lparr>svc := constructor e\<rparr>"

definition setUserContext :: "UserContext \<Rightarrow> world \<Rightarrow> world" where
  "setUserContext c w = w\<lparr>svc := (svc w)\<lparr>userContext := Some c\<rparr>\<rparr>"

subsection \<open>Offline support\<close>

definition queueOperation :: "string \<Rightarrow> payload \<Rightarrow> world \<Rightarrow> world" where
  "queueOperation t d w =
     (let q = offlineQueue (svc w) @ [\<lparr>op_type = t, op_data = d, op_timestamp = clock w\<rparr>];
          w' = w\<lparr>svc := (svc w)\<lparr>offlineQueue := q\<rparr>\<rparr>
      in setItem ''supabase_offline_queue'' q w')"

subsection \<open>Chat, design file, project file and settings writes\<close>

definition js_or :: "string option \<Rightarrow> string \<Rightarrow> string" where
  "js_or a b = (case a of None \<Rightarrow> b | Some v \<Rightarrow> if v = [] then b else v)"

definition chat_row_of :: "ChatMessage \<Rightarrow> string \<Rightarrow> nat \<Rightarrow> chat_row" where
  "chat_row_of message uid now =
     \<lparr> chat_id = js_or (cmId message) (cmProjectId message @ ''_'' @ show_nat now),
       chat_project_id = cmProjectId message,
       chat_user_id = uid,
       chat_role = cmRole message,
       chat_content = cmContent message,
       chat_model_used = cmModelUsed message,
       chat_tokens_used = cmTokensUsed message,
       chat_response_time_ms = cmResponseTimeMs message,
       chat_generated_screens = (case cmGeneratedScreens message of None \<Rightarrow> [] | Some g \<Rightarrow> g),
       chat_created_at = now \<rparr>"

definition merge_chat :: "chat_row \<Rightarrow> chat_row \<Rightarrow> chat_row" where
  "merge_chat old new =
     new\<lparr>chat_created_at := chat_created_at old,
         chat_model_used := keep_old (chat_model_used old) (chat_model_used new),
         chat_tokens_used := keep_old (chat_tokens_used old) (chat_tokens_used new),
         chat_response_time_ms := keep_old (chat_response_time_ms old) (chat_response_time_ms new)\<rparr>"

definition upsert_chat :: "chat_row \<Rightarrow> remote_store \<Rightarrow> remote_store" where
  "upsert_chat row d =
     d\<lparr>chat_history := upsert chat_id merge_chat row (chat_history d)\<rparr>"

definition saveChatMessage :: "ChatMessage \<Rightarrow> world \<Rightarrow> world" where
  "saveChatMessage message w =
     (case userContext (svc w) of
        None \<Rightarrow> queueOperation ''saveChatMessage'' (PChat message) w
      | Some ctx \<Rightarrow>
          if \<not> supabase (svc w) then queueOperation ''saveChatMessage'' (PChat message) w
          else
            (case request (upsert_chat (chat_row_of message (userId ctx) (clock w))) (db w) of
               (Done, d) \<Rightarrow> w\<lparr>db := d\<rparr>
             | (Failed, d) \<Rightarrow> queueOperation ''saveChatMessage'' (PChat message) (w\<lparr>db := d\<rparr>)
             | (Thrown, d) \<Rightarrow> queueOperation ''saveChatMessage'' (PChat message) (w\<lparr>db := d\<rparr>)))"

definition design_row_of :: "DesignFile \<Rightarrow> string \<Rightarrow> string \<Rightarrow> nat \<Rightarrow> design_row" where
  "design_row_of file uid new_id now =
     \<lparr> design_id = new_id,
       design_project_id = dfProjectId file,
       design_user_id = uid,
       design_file_path = dfFilePath file,
       design_file_type = dfFileType file,
       design_content = dfContent file,
       design_file_size = length (dfContent file),
       design_last_modified = now \<rparr>"

definition upsert_design :: "design_row \<Rightarrow> remote_store \<Rightarrow> remote_store" where
  "upsert_design row d =
     d\<lparr>design_files :=
         upsert (\<lambda>r. (design_project_id r, design_file_path r))
           (\<lambda>old new. new\<lparr>design_id := design_id old, design_last_modified := design_last_modified old\<rparr>)
           row (design_files d),
       next_id := Suc (next_id d)\<rparr>"

definition saveDesignFile :: "DesignFile \<Rightarrow> world \<Rightarrow> world" where
  "saveDesignFile file w =
     (case userContext (svc w) of
        None \<Rightarrow> queueOperation ''saveDesignFile'' (PDesign file) w
      | Some ctx \<Rightarrow>
          if \<not> supabase (svc w) then queueOperation ''saveDesignFile'' (PDesign file) w
          else
            (case request (upsert_design (design_row_of file (userId ctx) (fresh_id (db w)) (clock w))) (db w) of
               (Done, d) \<Rightarrow> w\<lparr>db := d\<rparr>
             | (Failed, d) \<Rightarrow> queueOperation ''saveDesignFile'' (PDesign file) (w\<lparr>db := d\<rparr>)
             | (Thrown, d) \<Rightarrow> queueOperation ''saveDesignFile'' (PDesign file) (w\<lparr>db := d\<rparr>)))"

definition pfile_row_of :: "ProjectFile \<Rightarrow> string \<Rightarrow> string \<Rightarrow> pfile_row" where
  "pfile_row_of file uid new_id =
     \<lparr> pfile_id = new_id,
       pfile_project_id = pfProjectId file,
       pfile_user_id = uid,
       pfile_file_path = pfFilePath file,
       pfile_content = pfContent file,
       pfile_is_binary = (case pfIsBinary file of None \<Rightarrow> False | Some b \<Rightarrow> b),
       pfile_mime_type = pfMimeType file,
       pfile_file_size =
         (case pfFileSize file of
            None \<Rightarrow> length (pfContent file)
          | Some n \<Rightarrow> if n = 0 then length (pfContent file) else n),
       pfile_is_deleted = (case pfIsDeleted file of None \<Rightarrow> False | Some b \<Rightarrow> b),
       pfile_deleted_at = None \<rparr>"

definition upsert_pfile :: "pfile_row \<Rightarrow> remote_store \<Rightarrow> remote_store" where
  "upsert_pfile row d =
     d\<lparr>project_files :=
         upsert (\<lambda>r. (pfile_project_id r, pfile_file_path r))
           (\<lambda>old new. new\<lparr>pfile_id := pfile_id old, pfile_deleted_at := pfile_deleted_at old,
                           pfile_mime_type := keep_old (pfile_mime_type old) (pfile_mime_type new)\<rparr>)
           row (project_files d),
       next_id := Suc (next_id d)\<rparr>"

definition saveProjectFile :: "ProjectFile \<Rightarrow> world \<Rightarrow> world" where
  "saveProjectFile file w =
     (case userContext (svc w) of
        None \<Rightarrow> queueOperation ''saveProjectFile'' (PProject file) w
      | Some ctx \<Rightarrow>
          if \<not> supabase (svc w) then queueOperation ''saveProjectFile'' (PProject file) w
          else
            (case request (upsert_pfile (pfile_row_of file (userId ctx) (fresh_id (db w)))) (db w) of
               (Done, d) \<Rightarrow> w\<lparr>db := d\<rparr>
             | (Failed, d) \<Rightarrow> queueOperation ''saveProjectFile'' (PProject file) (w\<lparr>db := d\<rparr>)
             | (Thrown, d) \<Rightarrow> queueOperation ''saveProjectFile'' (PProject file) (w\<lparr>db := d\<rparr>)))"

definition json_or_empty :: "json option \<Rightarrow> json" where
  "json_or_empty j = (case j of None \<Rightarrow> ''{}'' | Some v \<Rightarrow> v)"

definition list_or_empty :: "string list option \<Rightarrow> string list" where
  "list_or_empty l = (case l of None \<Rightarrow> [] | Some v \<Rightarrow> v)"

definition settings_row_of :: "UserSettings \<Rightarrow> string \<Rightarrow> settings_row" where
  "settings_row_of settings uid =
     \<lparr> settings_user_id = uid,
       settings_theme = theme settings,
       settings_provider_settings = json_or_empty (providerSettings settings),
       settings_auto_enabled_providers = list_or_empty (autoEnabledProviders settings),
       settings_mcp_settings = json_or_empty (mcpSettings settings),
       settings_github_connection = githubConnection settings,
       settings_gitlab_connection = gitlabConnection settings,
       settings_vercel_connection = vercelConnection settings,
       settings_netlify_connection = netlifyConnection settings,
       settings_supabase_connection = supabaseConnection settings,
       settings_viewed_features = list_or_empty (viewedFeatures settings) \<rparr>"

definition merge_settings :: "settings_row \<Rightarrow> settings_row \<Rightarrow> settings_row" where
  "merge_settings old new =
     new\<lparr>settings_theme := keep_old (settings_theme old) (settings_theme new),
         settings_github_connection :=
           keep_old (settings_github_connection old) (settings_github_connection new),
         settings_gitlab_connection :=
           keep_old (settings_gitlab_connection old) (settings_gitlab_connection new),
         settings_vercel_connection :=
           keep_old (settings_vercel_connection old) (settings_vercel_connection new),
         settings_netlify_connection :=
           keep_old (settings_netlify_connection old) (settings_netlify_connection new),
         settings_supabase_connection :=
           keep_old (settings_supabase_connection old) (settings_supabase_connection new)\<rparr>"

definition upsert_settings :: "settings_row \<Rightarrow> remote_store \<Rightarrow> remote_store" where
  "upsert_settings row d =
     d\<lparr>user_settings := upsert settings_user_id merge_settings row (user_settings d)\<rparr>"

text \<open>
  \<open>saveUserSettings\<close> returns at once without a context or a handle, and only logs a
  failed or rejected request: no branch of it calls \<open>queueOperation\<close>.
\<close>

definition saveUserSettings :: "UserSettings \<Rightarrow> world \<Rightarrow> world" where
  "saveUserSettings settings w =
     (case userContext (svc w) of
        None \<Rightarrow> w
      | Some ctx \<Rightarrow>
          if \<not> supabase (svc w) then w
          else w\<lparr>db := snd (request (upsert_settings (settings_row_of settings (userId ctx))) (db w))\<rparr>)"

subsection \<open>The queuing writes when the browser may refuse the storage write\<close>

text \<open>
  \<open>localStorage.setItem\<close> throws when the storage is full or blocked, and
  \<open>queueOperation\<close> does not catch that. Here a write returns, besides the world it
  leaves behind, the exception its promise is rejected with (\<open>None\<close> when it resolves);
  \<open>accepts\<close> says which values the browser takes. The call of \<open>queueOperation\<close> before
  the \<open>try\<close> (no handle or no context) lets the exception out; the one inside the \<open>try\<close>
  (an error result) is caught by the \<open>catch\<close> of the same method, which calls
  \<open>queueOperation\<close> once more, now outside any \<open>try\<close>.
\<close>

datatype storage_exn = StorageError

definition setItem_quota ::
    "(queued_op list \<Rightarrow> bool) \<Rightarrow> string \<Rightarrow> queued_op list \<Rightarrow> world \<Rightarrow> storage_exn option \<times> world" where
  "setItem_quota accepts k v w =
     (case localStorage w of
        None \<Rightarrow> (None, w)
      | Some m \<Rightarrow>
          if accepts v then (None, w\<lparr>localStorage := Some (m(k \<mapsto> v))\<rparr>)
          else (Some StorageError, w))"

definition queueOperation_quota ::
    "(queued_op list \<Rightarrow> bool) \<Rightarrow> string \<Rightarrow> payload \<Rightarrow> world \<Rightarrow> storage_exn option \<times> world" where
  "queueOperation_quota accepts t d w =
     (let q = offlineQueue (svc w) @ [\<lparr>op_type = t, op_data = d, op_timestamp = clock w\<rparr>];
          w' = w\<lparr>svc := (svc w)\<lparr>offlineQueue := q\<rparr>\<rparr>
      in setItem_quota accepts ''supabase_offline_queue'' q w')"

definition saveChatMessage_quota ::
    "(queued_op list \<Rightarrow> bool) \<Rightarrow> ChatMessage \<Rightarrow> world \<Rightarrow> storage_exn option \<times> world" where
  "saveChatMessage_quota accepts message w =
     (case userContext (svc w) of
        None \<Rightarrow> queueOperation_quota accepts ''saveChatMessage'' (PChat message) w
      | Some ctx \<Rightarrow>
          if \<not> supabase (svc w) then queueOperation_quota accepts ''saveChatMessage'' (PChat message) w
          else
            (case request (upsert_chat (chat_row_of message (userId ctx) (clock w))) (db w) of
               (Done, d) \<Rightarrow> (None, w\<lparr>db := d\<rparr>)
             | (Failed, d) \<Rightarrow>
                 (case queueOperation_quota accepts ''saveChatMessage'' (PChat message) (w\<lparr>db := d\<rparr>) of
                    (None, w1) \<Rightarrow> (None, w1)
                  | (Some e, w1) \<Rightarrow> queueOperation_quota accepts ''saveChatMessage'' (PChat message) w1)
             | (Thrown, d) \<Rightarrow>
                 queueOperation_quota accepts ''saveChatMessage'' (PChat message) (w\<lparr>db := d\<rparr>)))"

definition saveDesignFile_quota ::
    "(queued_op list \<Rightarrow> bool) \<Rightarrow> DesignFile \<Rightarrow> world \<Rightarrow> storage_exn option \<times> world" where
  "saveDesignFile_quota accepts file w =
     (case userContext (svc w) of
        None \<Rightarrow> queueOperation_quota accepts ''saveDesignFile'' (PDesign file) w
      | Some ctx \<Rightarrow>
          if \<not> supabase (svc w) then queueOperation_quota accepts ''saveDesignFile'' (PDesign file) w
          else
            (case request (upsert_design (design_row_of file (userId ctx) (fresh_id (db w)) (clock w))) (db w) of
               (Done, d) \<Rightarrow> (None, w\<lparr>db := d\<rparr>)
             | (Failed, d) \<Rightarrow>
                 (case queueOperation_quota accepts ''saveDesignFile'' (PDesign file) (w\<lparr>db := d\<rparr>) of
                    (None, w1) \<Rightarrow> (None, w1)
                  | (Some e, w1) \<Rightarrow> queueOperation_quota accepts ''saveDesignFile'' (PDesign file) w1)
             | (Thrown, d) \<Rightarrow>
                 queueOperation_quota accepts ''saveDesignFile'' (PDesign file) (w\<lparr>db := d\<rparr>)))"

definition saveProjectFile_quota ::
    "(queued_op list \<Rightarrow> bool) \<Rightarrow> ProjectFile \<Rightarrow> world \<Rightarrow> storage_exn option \<times> world" where
  "saveProjectFile_quota accepts file w =
     (case userContext (svc w) of
        None \<Rightarrow> queueOperation_quota accepts ''saveProjectFile'' (PProject file) w
      | Some ctx \<Rightarrow>
          if \<not> supabase (svc w) then queueOperation_quota accepts ''saveProjectFile'' (PProject file) w
          else
            (case request (upsert_pfile (pfile_row_of file (userId ctx) (fresh_id (db w)))) (db w) of
               (Done, d) \<Rightarrow> (None, w\<lparr>db := d\<rparr>)
             | (Failed, d) \<Rightarrow>
                 (case queueOperation_quota accepts ''saveProjectFile'' (PProject file) (w\<lparr>db := d\<rparr>) of
                    (None, w1) \<Rightarrow> (None, w1)
                  | (Some e, w1) \<Rightarrow> queueOperation_quota accepts ''saveProjectFile'' (PProject file) w1)
             | (Thrown, d) \<Rightarrow>
                 queueOperation_quota accepts ''saveProjectFile'' (PProject file) (w\<lparr>db := d\<rparr>)))"

subsection \<open>Replay of the queue\<close>

text \<open>
  The \<open>switch\<close> of \<open>processOfflineQueue\<close>: a known \<open>type\<close> calls its \<open>save*\<close> with
  \<open>operation.data\<close>, any other \<open>type\<close> does nothing. \<open>queueOperation\<close> is only called
  with a payload of the matching interface, so the remaining payload cases stand for
  ill-typed data and leave the world as it is.
\<close>

definition dispatch :: "queued_op \<Rightarrow> world \<Rightarrow> world" where
  "dispatch operation w =
     (if op_type operation = ''saveChatMessage'' then
        (case op_data operation of PChat m \<Rightarrow> saveChatMessage m w | _ \<Rightarrow> w)
      else if op_type operation = ''saveDesignFile'' then
        (case op_data operation of PDesign f \<Rightarrow> saveDesignFile f w | _ \<Rightarrow> w)
      else if op_type operation = ''saveProjectFile'' then
        (case op_data operation of PProject f \<Rightarrow> saveProjectFile f w | _ \<Rightarrow> w)
      else w)"

text \<open>
  The \<open>for ... of queue\<close> loop. Each \<open>save*\<close> catches every failure itself and re-queues
  through \<open>queueOperation\<close>, so nothing reaches the \<open>catch\<close> of the loop body.
\<close>

fun drain_loop :: "queued_op list \<Rightarrow> world \<Rightarrow> world" where
  "drain_loop [] w = w"
| "drain_loop (operation # rest) w = drain_loop rest (dispatch operation w)"

definition processOfflineQueue :: "world \<Rightarrow> world" where
  "processOfflineQueue w =
     (if \<not> isOnline (svc w) \<or> \<not> supabase (svc w) \<or> userContext (svc w) = None then w
      else
        (let queue = offlineQueue (svc w);
             w1 = w\<lparr>svc := (svc w)\<lparr>offlineQueue := []\<rparr>\<rparr>;
             w2 = drain_loop queue w1
         in setItem ''supabase_offline_queue'' (offlineQueue (svc w2)) w2))"

definition handleOnline :: "world \<Rightarrow> world" where
  "handleOnline w = processOfflineQueue (w\<lparr>svc := (svc w)\<lparr>isOnline := True\<rparr>\<rparr>)"

definition handleOffline :: "world \<Rightarrow> world" where
  "handleOffline w = w\<lparr>svc := (svc w)\<lparr>isOnline := False\<rparr>\<rparr>"

record sync_status =
  online :: bool
  queuedOperations :: nat
  authenticated :: bool

definition getSyncStatus :: "world \<Rightarrow> sync_status" where
  "getSyncStatus w =
     \<lparr> online = isOnline (svc w),
       queuedOperations = length (offlineQueue (svc w)),
       authenticated = (userContext (svc w) \<noteq> None) \<rparr>"

subsection \<open>Reads\<close>

text \<open>A read request: it is counted and takes the next outcome of the script.\<close>

definition query :: "remote_store \<Rightarrow> outcome \<times> remote_store" where
  "query d = (next_outcome d, consume d)"

definition message_of :: "chat_row \<Rightarrow> Message" where
  "message_of msg = \<lparr> msgId = chat_id msg, msgRole = chat_role msg, msgContent = chat_content msg \<rparr>"

definition getChatHistory :: "string \<Rightarrow> world \<Rightarrow> Message list \<times> world" where
  "getChatHistory projectId w =
     (case userContext (svc w) of
        None \<Rightarrow> ([], w)
      | Some ctx \<Rightarrow>
          if \<not> supabase (svc w) then ([], w)
          else
            (case query (db w) of
               (Done, d) \<Rightarrow>
                 (map message_of
                    (sort_key chat_created_at
                       (filter (\<lambda>r. chat_project_id r = projectId \<and> chat_user_id r = userId ctx)
                          (chat_history d))),
                  w\<lparr>db := d\<rparr>)
             | (_, d) \<Rightarrow> ([], w\<lparr>db := d\<rparr>)))"

text \<open>\<open>.order('updated_at', { ascending: false })\<close> and \<open>.limit(50)\<close>.\<close>

definition order_desc :: "('r \<Rightarrow> nat) \<Rightarrow> 'r list \<Rightarrow> 'r list" where
  "order_desc f rows = rev (sort_key f rows)"

definition getProjects :: "world \<Rightarrow> project_row list \<times> world" where
  "getProjects w =
     (case userContext (svc w) of
        None \<Rightarrow> ([], w)
      | Some ctx \<Rightarrow>
          if \<not> supabase (svc w) then ([], w)
          else
            (case query (db w) of
               (Done, d) \<Rightarrow>
                 (take 50
                    (order_desc project_updated_at
                       (filter (\<lambda>r. project_user_id r = userId ctx \<and> project_status r = ''active'')
                          (projects d))),
                  w\<lparr>db := d\<rparr>)
             | (_, d) \<Rightarrow> ([], w\<lparr>db := d\<rparr>)))"

definition design_file_of :: "design_row \<Rightarrow> DesignFile" where
  "design_file_of f =
     \<lparr> dfId = Some (design_id f),
       dfProjectId = design_project_id f,
       dfFilePath = design_file_path f,
       dfFileType = design_file_type f,
       dfContent = design_content f,
       dfFileSize = Some (design_file_size f),
       dfLastModified = Some (design_last_modified f) \<rparr>"

definition getDesignFiles :: "string \<Rightarrow> world \<Rightarrow> DesignFile list \<times> world" where
  "getDesignFiles projectId w =
     (case userContext (svc w) of
        None \<Rightarrow> ([], w)
      | Some ctx \<Rightarrow>
          if \<not> supabase (svc w) then ([], w)
          else
            (case query (db w) of
               (Done, d) \<Rightarrow>
                 (map design_file_of
                    (filter (\<lambda>r. design_project_id r = projectId \<and> design_user_id r = userId ctx)
                       (design_files d)),
                  w\<lparr>db := d\<rparr>)
             | (_, d) \<Rightarrow> ([], w\<lparr>db := d\<rparr>)))"

definition project_file_of :: "pfile_row \<Rightarrow> ProjectFile" where
  "project_file_of f =
     \<lparr> pfId = Some (pfile_id f),
       pfProjectId = pfile_project_id f,
       pfFilePath = pfile_file_path f,
       pfContent = pfile_content f,
       pfIsBinary = Some (pfile_is_binary f),
       pfMimeType = (case pfile_mime_type f of None \<Rightarrow> None | Some m \<Rightarrow> if m = [] then None else Some m),
       pfFileSize = Some (pfile_file_size f),
       pfIsDeleted = Some (pfile_is_deleted f) \<rparr>"

definition getProjectFiles :: "string \<Rightarrow> world \<Rightarrow> ProjectFile list \<times> world" where
  "getProjectFiles projectId w =
     (case userContext (svc w) of
        None \<Rightarrow> ([], w)
      | Some ctx \<Rightarrow>
          if \<not> supabase (svc w) then ([], w)
          else
            (case query (db w) of
               (Done, d) \<Rightarrow>
                 (map project_file_of
                    (filter (\<lambda>r. pfile_project_id r = projectId \<and> pfile_user_id r = userId ctx
                                  \<and> pfile_is_deleted r = False)
                       (project_files d)),
                  w\<lparr>db := d\<rparr>)
             | (_, d) \<Rightarrow> ([], w\<lparr>db := d\<rparr>)))"

definition user_settings_of :: "settings_row \<Rightarrow> UserSettings" where
  "user_settings_of data =
     \<lparr> theme = settings_theme data,
       providerSettings = Some (settings_provider_settings data),
       autoEnabledProviders = Some (settings_auto_enabled_providers data),
       mcpSettings = Some (settings_mcp_settings data),
       githubConnection = settings_github_connection data,
       gitlabConnection = settings_gitlab_connection data,
       vercelConnection = settings_vercel_connection data,
       netlifyConnection = settings_netlify_connection data,
       supabaseConnection = settings_supabase_connection data,
       viewedFeatures = Some (settings_viewed_features data) \<rparr>"

text \<open>The two single-valued reads answer \<open>null\<close> (\<open>None\<close>) where the others answer \<open>[]\<close>.\<close>

definition getUserSettings :: "world \<Rightarrow> UserSettings option \<times> world" where
  "getUserSettings w =
     (case userContext (svc w) of
        None \<Rightarrow> (None, w)
      | Some ctx \<Rightarrow>
          if \<not> supabase (svc w) then (None, w)
          else
            (case query (db w) of
               (Done, d) \<Rightarrow>
                 (map_option user_settings_of
                    (single (filter (\<lambda>r. settings_user_id r = userId ctx) (user_settings d))),
                  w\<lparr>db := d\<rparr>)
             | (_, d) \<Rightarrow> (None, w\<lparr>db := d\<rparr>)))"

definition getCanvasState :: "string \<Rightarrow> world \<Rightarrow> json option \<times> world" where
  "getCanvasState projectId w =
     (case userContext (svc w) of
        None \<Rightarrow> (None, w)
      | Some ctx \<Rightarrow>
          if \<not> supabase (svc w) then (None, w)
          else
            (case query (db w) of
               (Done, d) \<Rightarrow>
                 ((case single (filter (\<lambda>r. project_id r = projectId \<and> project_user_id r = userId ctx)
                                  (projects d)) of
                     None \<Rightarrow> None
                   | Some data \<Rightarrow> project_canvas_state data),
                  w\<lparr>db := d\<rparr>)
             | (_, d) \<Rightarrow> (None, w\<lparr>db := d\<rparr>)))"

subsection \<open>Deletes\<close>

definition deleteProject :: "string \<Rightarrow> world \<Rightarrow> world" where
  "deleteProject projectId w =
     (case userContext (svc w) of
        None \<Rightarrow> w
      | Some ctx \<Rightarrow>
          if \<not> supabase (svc w) then w
          else
            w\<lparr>db := snd (request
                 (\<lambda>d. d\<lparr>projects :=
                        map (\<lambda>r. if project_id r = projectId \<and> project_user_id r = userId ctx
                                 then r\<lparr>project_status := ''deleted''\<rparr> else r)
                          (projects d)\<rparr>)
                 (db w))\<rparr>)"

definition deleteDesignFile :: "string \<Rightarrow> string \<Rightarrow> world \<Rightarrow> world" where
  "deleteDesignFile projectId filePath w =
     (case userContext (svc w) of
        None \<Rightarrow> w
      | Some ctx \<Rightarrow>
          if \<not> supabase (svc w) then w
          else
            w\<lparr>db := snd (request
                 (\<lambda>d. d\<lparr>design_files :=
                        filter (\<lambda>r. \<not> (design_project_id r = projectId \<and> design_file_path r = filePath
                                        \<and> design_user_id r = userId ctx))
                          (design_files d)\<rparr>)
                 (db w))\<rparr>)"

definition deleteProjectFile :: "string \<Rightarrow> string \<Rightarrow> world \<Rightarrow> world" where
  "deleteProjectFile projectId filePath w =
     (case userContext (svc w) of
        None \<Rightarrow> w
      | Some ctx \<Rightarrow>
          if \<not> supabase (svc w) then w
          else
            w\<lparr>db := snd (request
                 (\<lambda>d. d\<lparr>project_files :=
                        map (\<lambda>r. if pfile_project_id r = projectId \<and> pfile_file_path r = filePath
                                    \<and> pfile_user_id r = userId ctx
                                 then r\<lparr>pfile_is_deleted := True, pfile_deleted_at := Some (clock w)\<rparr>
                                 else r)
                          (project_files d)\<rparr>)
                 (db w))\<rparr>)"

subsection \<open>Identity binding\<close>

datatype error = NotInitialized | RemoteError

text \<open>
  \<open>ensureUser\<close> sends two requests with an \<open>await\<close> between them: first the
  \<open>select('id').eq('clerk_user_id', ...).single()\<close>, then either the update of
  \<open>last_login_at\<close> or the insert. Each half is a function, so that the halves of two
  invocations can be run in the order the event loop may take them. \<open>fetchError\<close> is
  never looked at: a failed select goes on to the insert like an absent row does.
  The schema is not part of the sources; \<open>users_unique\<close> says whether the table rejects
  a second row with the same \<open>clerk_user_id\<close>.
\<close>

datatype lookup = Rejected error | Found string | Missing

definition ensureUser_select :: "string \<Rightarrow> world \<Rightarrow> lookup \<times> world" where
  "ensureUser_select clerkId w =
     (if \<not> supabase (svc w) then (Rejected NotInitialized, w)
      else
        (case query (db w) of
           (Thrown, d) \<Rightarrow> (Rejected RemoteError, w\<lparr>db := d\<rparr>)
         | (Failed, d) \<Rightarrow> (Missing, w\<lparr>db := d\<rparr>)
         | (Done, d) \<Rightarrow>
             (case single (filter (\<lambda>u. user_clerk_user_id u = clerkId) (users d)) of
                None \<Rightarrow> (Missing, w\<lparr>db := d\<rparr>)
              | Some existingUser \<Rightarrow> (Found (user_id existingUser), w\<lparr>db := d\<rparr>))))"

definition insert_user :: "string \<Rightarrow> string \<Rightarrow> string option \<Rightarrow> nat \<Rightarrow> remote_store \<Rightarrow> outcome \<times> remote_store" where
  "insert_user clerkId email fullName now d =
     (if users_unique d \<and> (\<exists>u \<in> set (users d). user_clerk_user_id u = clerkId)
      then (Failed, consume d)
      else
        request
          (\<lambda>d'. d'\<lparr>users := users d' @
                    [\<lparr> user_id = fresh_id d', user_clerk_user_id = clerkId, user_email = email,
                       user_full_name = fullName, user_last_login_at = now \<rparr>],
                  next_id := Suc (next_id d')\<rparr>)
          d)"

definition ensureUser_finish ::
    "string \<Rightarrow> string \<Rightarrow> string option \<Rightarrow> lookup \<Rightarrow> world \<Rightarrow> (error + string) \<times> world" where
  "ensureUser_finish clerkId email fullName l w =
     (case l of
        Rejected e \<Rightarrow> (Inl e, w)
      | Found uid \<Rightarrow>
          (case request
                  (\<lambda>d. d\<lparr>users := map (\<lambda>u. if user_clerk_user_id u = clerkId
                                            then u\<lparr>user_last_login_at := clock w\<rparr> else u) (users d)\<rparr>)
                  (db w) of
             (Thrown, d) \<Rightarrow> (Inl RemoteError, w\<lparr>db := d\<rparr>)
           | (_, d) \<Rightarrow> (Inr uid, w\<lparr>db := d\<rparr>))
      | Missing \<Rightarrow>
          (let new_id = fresh_id (db w)
           in case insert_user clerkId email fullName (clock w) (db w) of
                (Done, d) \<Rightarrow> (Inr new_id, w\<lparr>db := d\<rparr>)
              | (_, d) \<Rightarrow> (Inl RemoteError, w\<lparr>db := d\<rparr>)))"

definition ensureUser :: "string \<Rightarrow> string \<Rightarrow> string option \<Rightarrow> world \<Rightarrow> (error + string) \<times> world" where
  "ensureUser clerkId email fullName w =
     (case ensureUser_select clerkId w of
        (l, w') \<Rightarrow> ensureUser_finish clerkId email fullName l w')"

text \<open>
  Two invocations for the same external id whose selects both resolve before either
  second request is sent: the order select, select, finish, finish.
\<close>

definition ensureUser_overlapped ::
    "string \<Rightarrow> string \<Rightarrow> string option \<Rightarrow> world \<Rightarrow> ((error + string) \<times> (error + string)) \<times> world" where
  "ensureUser_overlapped clerkId email fullName w =
     (case ensureUser_select clerkId w of (l1, w1) \<Rightarrow>
      case ensureUser_select clerkId w1 of (l2, w2) \<Rightarrow>
      case ensureUser_finish clerkId email fullName l1 w2 of (r1, w3) \<Rightarrow>
      case ensureUser_finish clerkId email fullName l2 w3 of (r2, w4) \<Rightarrow>
        ((r1, r2), w4))"

text \<open>
  Invocations for the same external id one after the other, each awaited before the
  next is made; every invocation has its own email and name.
\<close>

fun ensureUser_each ::
    "string \<Rightarrow> (string \<times> string option) list \<Rightarrow> world \<Rightarrow> (error + string) list \<times> world" where
  "ensureUser_each clerkId [] w = ([], w)"
| "ensureUser_each clerkId ((email, fullName) # rest) w =
     (case ensureUser clerkId email fullName w of (r, w1) \<Rightarrow>
      case ensureUser_each clerkId rest w1 of (rs, w2) \<Rightarrow> (r # rs, w2))"

subsection \<open>The public surface as one step function\<close>

text \<open>
  Everything a caller or the browser can do to one client, so that "whatever happens" is
  a list of calls run from a new instance. \<open>Tick\<close> lets time pass; \<open>Reload\<close> is a page
  load that builds a new instance.
\<close>

datatype call =
    SaveChatMessage ChatMessage
  | SaveDesignFile DesignFile
  | SaveProjectFile ProjectFile
  | SaveUserSettings UserSettings
  | GetChatHistory string
  | GetProjects
  | GetDesignFiles string
  | GetProjectFiles string
  | GetUserSettings
  | GetCanvasState string
  | DeleteProject string
  | DeleteDesignFile string string
  | DeleteProjectFile string string
  | EnsureUser string string "string option"
  | SetUserContext UserContext
  | HandleOnline
  | HandleOffline
  | Tick
  | Reload env

fun step :: "call \<Rightarrow> world \<Rightarrow> world" where
  "step (SaveChatMessage m) w = saveChatMessage m w"
| "step (SaveDesignFile f) w = saveDesignFile f w"
| "step (SaveProjectFile f) w = saveProjectFile f w"
| "step (SaveUserSettings s) w = saveUserSettings s w"
| "step (GetChatHistory p) w = snd (getChatHistory p w)"
| "step GetProjects w = snd (getProjects w)"
| "step (GetDesignFiles p) w = snd (getDesignFiles p w)"
| "step (GetProjectFiles p) w = snd (getProjectFiles p w)"
| "step GetUserSettings w = snd (getUserSettings w)"
| "step (GetCanvasState p) w = snd (getCanvasState p w)"
| "step (DeleteProject p) w = deleteProject p w"
| "step (DeleteDesignFile p f) w = deleteDesignFile p f w"
| "step (DeleteProjectFile p f) w = deleteProjectFile p f w"
| "step (EnsureUser c e n) w = snd (ensureUser c e n w)"
| "step (SetUserContext c) w = setUserContext c w"
| "step HandleOnline w = handleOnline w"
| "step HandleOffline w = handleOffline w"
| "step Tick w = w\<lparr>clock := Suc (clock w)\<rparr>"
| "step (Reload e) w = restart e w"

definition run :: "call list \<Rightarrow> world \<Rightarrow> world" where
  "run cs w = fold step cs w"

definition boot :: "env \<Rightarrow> remote_store \<Rightarrow> (string \<rightharpoonup> queued_op list) option \<Rightarrow> nat \<Rightarrow> world" where
  "boot e d ls t = \<lparr> svc = constructor e, db = d, localStorage = ls, clock = t \<rparr>"

subsection \<open>Notions the statements use\<close>

text \<open>An entry as \<open>queueOperation\<close> is called by the three queuing writes.\<close>

definition save_entry :: "queued_op \<Rightarrow> bool" where
  "save_entry operation =
     (case op_data operation of
        PChat _ \<Rightarrow> op_type operation = ''saveChatMessage''
      | PDesign _ \<Rightarrow> op_type operation = ''saveDesignFile''
      | PProject _ \<Rightarrow> op_type operation = ''saveProjectFile'')"


text \<open>
  The entries of a snapshot whose request does not succeed, the i-th entry facing the
  i-th outcome of the script (an exhausted script succeeds).
\<close>

fun failed_ops :: "'a list \<Rightarrow> outcome list \<Rightarrow> 'a list" where
  "failed_ops [] rs = []"
| "failed_ops (x # xs) [] = []"
| "failed_ops (x # xs) (r # rs) = (if r = Done then failed_ops xs rs else x # failed_ops xs rs)"

text \<open>
  The internal id an external id is bound to: that of its row, or, with no row yet, the
  id the store gives the next row it inserts.
\<close>

definition bound_id :: "string \<Rightarrow> remote_store \<Rightarrow> string" where
  "bound_id clerkId d =
     (case filter (\<lambda>u. user_clerk_user_id u = clerkId) (users d) of
        [] \<Rightarrow> fresh_id d
      | u # _ \<Rightarrow> user_id u)"

text \<open>The queue after one more entry of a type and payload.\<close>

definition queued :: "string \<Rightarrow> payload \<Rightarrow> world \<Rightarrow> queued_op list" where
  "queued t d w = offlineQueue (svc w) @ [\<lparr>op_type = t, op_data = d, op_timestamp = clock w\<rparr>]"

subsection \<open>Concrete scenarios\<close>

definition empty_store :: remote_store where
  "empty_store =
     \<lparr> users = [], chat_history = [], projects = [], design_files = [], project_files = [],
       user_settings = [], users_unique = False, next_id = 0, calls = 0, outcomes = [] \<rparr>"

definition browser_env :: env where
  "browser_env =
     \<lparr> supabaseUrl = Some ''https://db.example'', supabaseAnonKey = Some ''anon'',
       createClient_throws = False, navigator_onLine = Some True \<rparr>"

definition offline_env :: env where
  "offline_env = browser_env\<lparr>navigator_onLine := Some False\<rparr>"

definition alice :: UserContext where
  "alice = \<lparr> userId = ''u-alice'', clerkUserId = ''clerk-alice'' \<rparr>"

definition message_m1 :: ChatMessage where
  "message_m1 =
     \<lparr> cmId = Some ''m1'', cmProjectId = ''p1'', cmRole = ''user'', cmContent = ''hi'',
       cmModelUsed = None, cmTokensUsed = None, cmResponseTimeMs = None,
       cmGeneratedScreens = None \<rparr>"

definition design_index :: DesignFile where
  "design_index =
     \<lparr> dfId = None, dfProjectId = ''p1'', dfFilePath = ''index.html'', dfFileType = ''html'',
       dfContent = ''A'', dfFileSize = None, dfLastModified = None \<rparr>"

definition pfile_main :: ProjectFile where
  "pfile_main =
     \<lparr> pfId = None, pfProjectId = ''p1'', pfFilePath = ''main.ts'', pfContent = ''x'',
       pfIsBinary = None, pfMimeType = None, pfFileSize = None, pfIsDeleted = None \<rparr>"

definition settings_dark :: UserSettings where
  "settings_dark =
     \<lparr> theme = Some ''dark'', providerSettings = None, autoEnabledProviders = None,
       mcpSettings = None, githubConnection = None, gitlabConnection = None,
       vercelConnection = None, netlifyConnection = None, supabaseConnection = None,
       viewedFeatures = None \<rparr>"

text \<open>A new instance in a browser, nobody signed in yet.\<close>

definition anonymous_world :: world where
  "anonymous_world = boot browser_env empty_store (Some Map.empty) 7"

text \<open>Alice signed in, the browser reports offline and the next request fails.\<close>

definition offline_world :: world where
  "offline_world =
     setUserContext alice (boot offline_env (empty_store\<lparr>outcomes := [Failed]\<rparr>) (Some Map.empty) 7)"

text \<open>Alice signed in and online, the next request fails.\<close>

definition flaky_world :: world where
  "flaky_world =
     setUserContext alice (boot browser_env (empty_store\<lparr>outcomes := [Failed]\<rparr>) (Some Map.empty) 7)"


text \<open>Alice signed in and online, with projects of hers and of somebody else in the store.\<close>

definition some_projects :: "project_row list" where
  "some_projects =
     [\<lparr> project_id = ''p-old'', project_user_id = ''u-alice'', project_name = ''Old'',
        project_description = None, project_status = ''active'', project_updated_at = 5,
        project_canvas_state = None \<rparr>,
      \<lparr> project_id = ''p-gone'', project_user_id = ''u-alice'', project_name = ''Gone'',
        project_description = None, project_status = ''deleted'', project_updated_at = 9,
        project_canvas_state = None \<rparr>,
      \<lparr> project_id = ''p-bob'', project_user_id = ''u-bob'', project_name = ''Bob'',
        project_description = None, project_status = ''active'', project_updated_at = 8,
        project_canvas_state = None \<rparr>,
      \<lparr> project_id = ''p-new'', project_user_id = ''u-alice'', project_name = ''New'',
        project_description = None, project_status = ''active'', project_updated_at = 6,
        project_canvas_state = None \<rparr>]"

definition projects_world :: world where
  "projects_world =
     setUserContext alice (boot browser_env (empty_store\<lparr>projects := some_projects\<rparr>) (Some Map.empty) 7)"

text \<open>Alice signed in and online, with a design file and a project file of hers in the store.\<close>

definition files_world :: world where
  "files_world =
     setUserContext alice (boot browser_env
       (empty_store
          \<lparr>projects := some_projects,
           design_files :=
             [\<lparr> design_id = ''d1'', design_project_id = ''p-old'', design_user_id = ''u-alice'',
                design_file_path = ''index.html'', design_file_type = ''html'', design_content = ''A'',
                design_file_size = 1, design_last_modified = 3 \<rparr>],
           project_files :=
             [\<lparr> pfile_id = ''f1'', pfile_project_id = ''p-old'', pfile_user_id = ''u-alice'',
                pfile_file_path = ''main.ts'', pfile_content = ''x'', pfile_is_binary = False,
                pfile_mime_type = None, pfile_file_size = 1, pfile_is_deleted = False,
                pfile_deleted_at = None \<rparr>]\<rparr>)
       (Some Map.empty) 7)"

text \<open>A new instance against a store whose \<open>users\<close> table rejects a duplicate external id.\<close>

definition strict_world :: world where
  "strict_world = boot browser_env (empty_store\<lparr>users_unique := True\<rparr>) (Some Map.empty) 7"

section \<open>Basic facts\<close>

lemma queueOperation_queue [simp]:
  "offlineQueue (svc (queueOperation t d w)) =
     offlineQueue (svc w) @ [\<lparr>op_type = t, op_data = d, op_timestamp = clock w\<rparr>]"
  by (simp add: queueOperation_def setItem_def Let_def split: option.splits)

lemma queueOperation_frame [simp]:
  "db (queueOperation t d w) = db w"
  "clock (queueOperation t d w) = clock w"
  "supabase (svc (queueOperation t d w)) = supabase (svc w)"
  "userContext (svc (queueOperation t d w)) = userContext (svc w)"
  "isOnline (svc (queueOperation t d w)) = isOnline (svc w)"
  by (simp_all add: queueOperation_def setItem_def Let_def split: option.splits)

lemma queueOperation_stored:
  "getItem ''supabase_offline_queue'' (queueOperation t d w) =
     (if localStorage w = None then None else Some (offlineQueue (svc (queueOperation t d w))))"
  by (simp add: queueOperation_def setItem_def getItem_def Let_def split: option.splits)

lemma request_failed: "next_outcome d \<noteq> Done \<Longrightarrow> request f d = (next_outcome d, consume d)"
  by (simp add: request_def Let_def)

lemma request_done: "next_outcome d = Done \<Longrightarrow> request f d = (Done, f (consume d))"
  by (simp add: request_def Let_def)

lemma calls_consume [simp]: "calls (consume d) = Suc (calls d)"
  by (simp add: consume_def)

lemma saveChatMessage_absent:
  "userContext (svc w) = None \<or> \<not> supabase (svc w) \<Longrightarrow>
   saveChatMessage m w = queueOperation ''saveChatMessage'' (PChat m) w"
  by (auto simp: saveChatMessage_def split: option.splits)

lemma saveDesignFile_absent:
  "userContext (svc w) = None \<or> \<not> supabase (svc w) \<Longrightarrow>
   saveDesignFile f w = queueOperation ''saveDesignFile'' (PDesign f) w"
  by (auto simp: saveDesignFile_def split: option.splits)

lemma saveProjectFile_absent:
  "userContext (svc w) = None \<or> \<not> supabase (svc w) \<Longrightarrow>
   saveProjectFile f w = queueOperation ''saveProjectFile'' (PProject f) w"
  by (auto simp: saveProjectFile_def split: option.splits)

lemma saveUserSettings_absent:
  "userContext (svc w) = None \<or> \<not> supabase (svc w) \<Longrightarrow> saveUserSettings s w = w"
  by (auto simp: saveUserSettings_def split: option.splits)

lemma saveChatMessage_failed:
  "userContext (svc w) \<noteq> None \<Longrightarrow> supabase (svc w) \<Longrightarrow> next_outcome (db w) \<noteq> Done \<Longrightarrow>
   saveChatMessage m w = queueOperation ''saveChatMessage'' (PChat m) (w\<lparr>db := consume (db w)\<rparr>)"
  by (cases "next_outcome (db w)") (auto simp: saveChatMessage_def request_failed split: option.splits)

lemma saveDesignFile_failed:
  "userContext (svc w) \<noteq> None \<Longrightarrow> supabase (svc w) \<Longrightarrow> next_outcome (db w) \<noteq> Done \<Longrightarrow>
   saveDesignFile f w = queueOperation ''saveDesignFile'' (PDesign f) (w\<lparr>db := consume (db w)\<rparr>)"
  by (cases "next_outcome (db w)") (auto simp: saveDesignFile_def request_failed split: option.splits)

lemma saveProjectFile_failed:
  "userContext (svc w) \<noteq> None \<Longrightarrow> supabase (svc w) \<Longrightarrow> next_outcome (db w) \<noteq> Done \<Longrightarrow>
   saveProjectFile f w = queueOperation ''saveProjectFile'' (PProject f) (w\<lparr>db := consume (db w)\<rparr>)"
  by (cases "next_outcome (db w)") (auto simp: saveProjectFile_def request_failed split: option.splits)

lemma saveUserSettings_svc: "svc (saveUserSettings s w) = svc w"
  by (auto simp: saveUserSettings_def split: option.splits)

lemma saveUserSettings_storage: "localStorage (saveUserSettings s w) = localStorage w"
  by (auto simp: saveUserSettings_def split: option.splits)

lemma scenario_facts [simp]:
  "userContext (svc anonymous_world) = None"
  "offlineQueue (svc anonymous_world) = []"
  "localStorage anonymous_world \<noteq> None"
  "userContext (svc flaky_world) = Some alice"
  "supabase (svc flaky_world)"
  "isOnline (svc flaky_world)"
  "next_outcome (db flaky_world) = Failed"
  "offlineQueue (svc flaky_world) = []"
  "userContext (svc offline_world) = Some alice"
  "supabase (svc offline_world)"
  "\<not> isOnline (svc offline_world)"
  "offlineQueue (svc offline_world) = []"
  "outcomes (db offline_world) = [Failed]"
  "calls (db offline_world) = 0"
  "chat_history (db offline_world) = []"
  by (simp_all add: anonymous_world_def flaky_world_def offline_world_def boot_def constructor_def
      setUserContext_def empty_store_def next_outcome_def browser_env_def offline_env_def truthy_def)

lemma outcomes_consume [simp]: "outcomes (consume d) = tl (outcomes d)"
  by (simp add: consume_def)

lemma tables_consume [simp]:
  "users (consume d) = users d"
  "chat_history (consume d) = chat_history d"
  "projects (consume d) = projects d"
  "design_files (consume d) = design_files d"
  "project_files (consume d) = project_files d"
  "user_settings (consume d) = user_settings d"
  "users_unique (consume d) = users_unique d"
  "next_id (consume d) = next_id d"
  by (simp_all add: consume_def)

lemma outcomes_upserts [simp]:
  "outcomes (upsert_chat c d) = outcomes d"
  "outcomes (upsert_design r d) = outcomes d"
  "outcomes (upsert_pfile p d) = outcomes d"
  "calls (upsert_chat c d) = calls d"
  "calls (upsert_design r d) = calls d"
  "calls (upsert_pfile p d) = calls d"
  by (simp_all add: upsert_chat_def upsert_design_def upsert_pfile_def)




lemma setItem_frame [simp]:
  "svc (setItem k v w) = svc w" "db (setItem k v w) = db w" "clock (setItem k v w) = clock w"
  by (simp_all add: setItem_def split: option.splits)


lemma setItem_storage_none [simp]:
  "(localStorage (setItem k v w) = None) = (localStorage w = None)"
  by (simp add: setItem_def split: option.splits)

lemma queueOperation_storage_none [simp]:
  "(localStorage (queueOperation t d w) = None) = (localStorage w = None)"
  by (simp add: queueOperation_def Let_def)

lemma save_storage_none [simp]:
  "(localStorage (saveChatMessage m w) = None) = (localStorage w = None)"
  "(localStorage (saveDesignFile f w) = None) = (localStorage w = None)"
  "(localStorage (saveProjectFile g w) = None) = (localStorage w = None)"
  by (simp_all add: saveChatMessage_def saveDesignFile_def saveProjectFile_def
      split: option.splits prod.splits outcome.splits)

lemma dispatch_storage_none [simp]:
  "(localStorage (dispatch operation w) = None) = (localStorage w = None)"
  by (simp add: dispatch_def split: payload.splits)



lemma failed_ops_exhausted [simp]: "failed_ops xs [] = []"
  by (cases xs) simp_all





lemma reads_svc:
  "svc (snd (getChatHistory p w)) = svc w"
  "svc (snd (getProjects w)) = svc w"
  "svc (snd (getDesignFiles p w)) = svc w"
  "svc (snd (getProjectFiles p w)) = svc w"
  "svc (snd (getUserSettings w)) = svc w"
  "svc (snd (getCanvasState p w)) = svc w"
  by (simp_all add: getChatHistory_def getProjects_def getDesignFiles_def getProjectFiles_def
      getUserSettings_def getCanvasState_def query_def split: option.splits outcome.splits)

lemma reads_storage:
  "localStorage (snd (getChatHistory p w)) = localStorage w"
  "localStorage (snd (getProjects w)) = localStorage w"
  "localStorage (snd (getDesignFiles p w)) = localStorage w"
  "localStorage (snd (getProjectFiles p w)) = localStorage w"
  "localStorage (snd (getUserSettings w)) = localStorage w"
  "localStorage (snd (getCanvasState p w)) = localStorage w"
  by (simp_all add: getChatHistory_def getProjects_def getDesignFiles_def getProjectFiles_def
      getUserSettings_def getCanvasState_def query_def split: option.splits outcome.splits)

lemma reads_absent:
  assumes "userContext (svc w) = None \<or> \<not> supabase (svc w)"
  shows "getChatHistory p w = ([], w)" "getProjects w = ([], w)" "getDesignFiles p w = ([], w)"
    "getProjectFiles p w = ([], w)" "getUserSettings w = (None, w)" "getCanvasState p w = (None, w)"
  using assms
  by (auto simp: getChatHistory_def getProjects_def getDesignFiles_def getProjectFiles_def
      getUserSettings_def getCanvasState_def split: option.splits)

lemma reads_failed:
  assumes "next_outcome (db w) \<noteq> Done"
  shows "fst (getChatHistory p w) = []" "fst (getProjects w) = []" "fst (getDesignFiles p w) = []"
    "fst (getProjectFiles p w) = []" "fst (getUserSettings w) = None" "fst (getCanvasState p w) = None"
  using assms
  by (simp_all add: getChatHistory_def getProjects_def getDesignFiles_def getProjectFiles_def
      getUserSettings_def getCanvasState_def query_def split: option.splits outcome.splits)

lemma save_entry_names:
  "save_entry operation \<Longrightarrow>
   op_type operation = ''saveChatMessage'' \<or> op_type operation = ''saveDesignFile''
   \<or> op_type operation = ''saveProjectFile''"
  by (cases "op_data operation") (simp_all add: save_entry_def)

lemma queueOperation_entries:
  "save_entry \<lparr>op_type = t, op_data = d, op_timestamp = clock w\<rparr> \<Longrightarrow>
   list_all save_entry (offlineQueue (svc w)) \<Longrightarrow>
   list_all save_entry (offlineQueue (svc (queueOperation t d w)))"
  by simp

lemma save_entries:
  assumes "list_all save_entry (offlineQueue (svc w))"
  shows "list_all save_entry (offlineQueue (svc (saveChatMessage m w)))"
    and "list_all save_entry (offlineQueue (svc (saveDesignFile f w)))"
    and "list_all save_entry (offlineQueue (svc (saveProjectFile g w)))"
  using assms
  by (simp_all add: saveChatMessage_def saveDesignFile_def saveProjectFile_def save_entry_def
      split: option.splits prod.splits outcome.splits)

lemma dispatch_entries:
  "list_all save_entry (offlineQueue (svc w)) \<Longrightarrow>
   list_all save_entry (offlineQueue (svc (dispatch operation w)))"
  by (simp add: dispatch_def save_entries split: payload.splits)

lemma drain_loop_entries:
  "list_all save_entry (offlineQueue (svc w)) \<Longrightarrow>
   list_all save_entry (offlineQueue (svc (drain_loop q w)))"
  by (induction q arbitrary: w) (simp_all add: dispatch_entries)

lemma processOfflineQueue_entries:
  "list_all save_entry (offlineQueue (svc w)) \<Longrightarrow>
   list_all save_entry (offlineQueue (svc (processOfflineQueue w)))"
  by (simp add: processOfflineQueue_def Let_def drain_loop_entries)

lemma writes_svc:
  "svc (deleteProject p w) = svc w"
  "svc (deleteDesignFile p f w) = svc w"
  "svc (deleteProjectFile p f w) = svc w"
  "svc (snd (ensureUser c e n w)) = svc w"
  by (simp_all add: deleteProject_def deleteDesignFile_def deleteProjectFile_def ensureUser_def
      ensureUser_select_def ensureUser_finish_def query_def Let_def
      split: option.splits outcome.splits prod.splits lookup.splits)

lemma step_entries:
  "list_all save_entry (offlineQueue (svc w)) \<Longrightarrow>
   list_all save_entry (offlineQueue (svc (step c w)))"
  by (cases c)
     (simp_all add: save_entries saveUserSettings_svc reads_svc writes_svc setUserContext_def
        handleOnline_def handleOffline_def processOfflineQueue_entries restart_def constructor_def)

lemma run_entries:
  "list_all save_entry (offlineQueue (svc w)) \<Longrightarrow>
   list_all save_entry (offlineQueue (svc (run cs w)))"
  unfolding run_def by (induction cs arbitrary: w) (simp_all add: step_entries)

lemma boot_entries: "list_all save_entry (offlineQueue (svc (boot e d ls t)))"
  by (simp add: boot_def constructor_def)


lemma getProjects_cases:
  "fst (getProjects w) = [] \<or>
   (\<exists>ctx. userContext (svc w) = Some ctx \<and>
      fst (getProjects w) =
        take 50 (order_desc project_updated_at
          (filter (\<lambda>r. project_user_id r = userId ctx \<and> project_status r = ''active'')
             (projects (db w)))))"
  by (simp add: getProjects_def query_def split: option.splits outcome.splits)

lemma getProjects_done:
  "userContext (svc w) = Some ctx \<Longrightarrow> supabase (svc w) \<Longrightarrow> next_outcome (db w) = Done \<Longrightarrow>
   fst (getProjects w) =
     take 50 (order_desc project_updated_at
       (filter (\<lambda>r. project_user_id r = userId ctx \<and> project_status r = ''active'')
          (projects (db w))))"
  by (simp add: getProjects_def query_def)

lemma order_desc_sorted: "sorted_wrt (\<lambda>a b. f b \<le> f a) (order_desc f rows)"
proof -
  have "sorted (map f (sort_key f rows))" by (rule sorted_sort_key)
  then have "sorted_wrt (\<lambda>a b. f a \<le> f b) (sort_key f rows)"
    by (simp add: sorted_wrt_map)
  then show ?thesis by (simp add: order_desc_def sorted_wrt_rev)
qed

lemma set_order_desc [simp]: "set (order_desc f rows) = set rows"
  by (simp add: order_desc_def)

lemma length_order_desc [simp]: "length (order_desc f rows) = length rows"
  by (simp add: order_desc_def)

lemma projects_world_facts:
  "userContext (svc projects_world) = Some alice" "supabase (svc projects_world)"
  "next_outcome (db projects_world) = Done" "projects (db projects_world) = some_projects"
  by (simp_all add: projects_world_def setUserContext_def boot_def constructor_def browser_env_def
      truthy_def empty_store_def next_outcome_def)


lemma getProjects_projects_world:
  "map project_id (fst (getProjects projects_world)) = [''p-new'', ''p-old'']"
  by (simp add: getProjects_done [of _ alice] projects_world_facts some_projects_def alice_def
        order_desc_def)

lemma deleteProjectFile_done:
  assumes "userContext (svc w) = Some ctx" "supabase (svc w)" "next_outcome (db w) = Done"
  shows "deleteProjectFile p f w =
     w\<lparr>db := (consume (db w))\<lparr>project_files :=
        map (\<lambda>r. if pfile_project_id r = p \<and> pfile_file_path r = f \<and> pfile_user_id r = userId ctx
                 then r\<lparr>pfile_is_deleted := True, pfile_deleted_at := Some (clock w)\<rparr> else r)
          (project_files (db w))\<rparr>\<rparr>"
  using assms by (simp add: deleteProjectFile_def request_done)

lemma deleteDesignFile_done:
  assumes "userContext (svc w) = Some ctx" "supabase (svc w)" "next_outcome (db w) = Done"
  shows "deleteDesignFile p f w =
     w\<lparr>db := (consume (db w))\<lparr>design_files :=
        filter (\<lambda>r. \<not> (design_project_id r = p \<and> design_file_path r = f \<and> design_user_id r = userId ctx))
          (design_files (db w))\<rparr>\<rparr>"
  using assms by (simp add: deleteDesignFile_def request_done)

lemma deleteProject_done:
  assumes "userContext (svc w) = Some ctx" "supabase (svc w)" "next_outcome (db w) = Done"
  shows "deleteProject p w =
     w\<lparr>db := (consume (db w))\<lparr>projects :=
        map (\<lambda>r. if project_id r = p \<and> project_user_id r = userId ctx
                 then r\<lparr>project_status := ''deleted''\<rparr> else r)
          (projects (db w))\<rparr>\<rparr>"
  using assms by (simp add: deleteProject_def request_done)

lemma getProjectFiles_members:
  assumes "g \<in> set (fst (getProjectFiles p w))"
  shows "\<exists>ctx r. userContext (svc w) = Some ctx \<and> r \<in> set (project_files (db w))
           \<and> g = project_file_of r \<and> pfile_project_id r = p \<and> pfile_user_id r = userId ctx
           \<and> \<not> pfile_is_deleted r"
  using assms
  by (auto simp: getProjectFiles_def query_def split: option.splits outcome.splits if_splits)


lemma soft_delete_rows:
  "map (\<lambda>r. (pfile_id r, pfile_project_id r, pfile_file_path r, pfile_content r))
     (map (\<lambda>r. if P r then r\<lparr>pfile_is_deleted := True, pfile_deleted_at := t\<rparr> else r) rows)
   = map (\<lambda>r. (pfile_id r, pfile_project_id r, pfile_file_path r, pfile_content r)) rows"
  by (induction rows) simp_all

lemma soft_delete_marked:
  assumes "r \<in> set (map (\<lambda>r. if pfile_project_id r = p \<and> pfile_file_path r = f \<and> pfile_user_id r = u
                               then r\<lparr>pfile_is_deleted := True, pfile_deleted_at := t\<rparr> else r) rows)"
    and "pfile_project_id r = p" and "pfile_file_path r = f" and "pfile_user_id r = u"
  shows "pfile_is_deleted r \<and> pfile_deleted_at r = t"
proof -
  from assms(1) obtain x where x: "x \<in> set rows"
    and r: "r = (if pfile_project_id x = p \<and> pfile_file_path x = f \<and> pfile_user_id x = u
                 then x\<lparr>pfile_is_deleted := True, pfile_deleted_at := t\<rparr> else x)"
    by (auto simp only: set_map)
  show ?thesis
  proof (cases "pfile_project_id x = p \<and> pfile_file_path x = f \<and> pfile_user_id x = u")
    case True
    then show ?thesis using r by simp
  next
    case False
    have "r = x" unfolding r by (rule if_not_P [OF False])
    then show ?thesis using False assms(2-4) by simp
  qed
qed

lemma status_delete_rows:
  "map (\<lambda>r. (project_id r, project_user_id r, project_name r))
     (map (\<lambda>r. if P r then r\<lparr>project_status := s\<rparr> else r) rows)
   = map (\<lambda>r. (project_id r, project_user_id r, project_name r)) rows"
  by (induction rows) simp_all

lemma status_delete_marked:
  assumes "r \<in> set (map (\<lambda>r. if project_id r = p \<and> project_user_id r = u
                               then r\<lparr>project_status := s\<rparr> else r) rows)"
    and "project_id r = p" and "project_user_id r = u"
  shows "project_status r = s"
proof -
  from assms(1) obtain x where x: "x \<in> set rows"
    and r: "r = (if project_id x = p \<and> project_user_id x = u then x\<lparr>project_status := s\<rparr> else x)"
    by (auto simp only: set_map)
  show ?thesis
  proof (cases "project_id x = p \<and> project_user_id x = u")
    case True
    then show ?thesis using r by simp
  next
    case False
    have "r = x" unfolding r by (rule if_not_P [OF False])
    then show ?thesis using False assms(2-3) by simp
  qed
qed


lemma show_nat_digits: "show_nat 0 = ''0''" "show_nat (Suc 0) = ''1''"
  by code_simp+

lemma all_done_next: "set (outcomes d) \<subseteq> {Done} \<Longrightarrow> next_outcome d = Done"
  by (cases "outcomes d") (simp_all add: next_outcome_def)

lemma all_done_consume: "set (outcomes d) \<subseteq> {Done} \<Longrightarrow> set (outcomes (consume d)) \<subseteq> {Done}"
  by (cases "outcomes d") simp_all

lemma fresh_id_consume [simp]: "fresh_id (consume d) = fresh_id d"
  by (simp add: fresh_id_def)

lemma ensureUser_select_done:
  assumes "supabase (svc w)" "next_outcome (db w) = Done"
  shows "ensureUser_select c w =
     ((case single (filter (\<lambda>u. user_clerk_user_id u = c) (users (db w))) of
         None \<Rightarrow> Missing | Some u \<Rightarrow> Found (user_id u)),
      w\<lparr>db := consume (db w)\<rparr>)"
  using assms by (simp add: ensureUser_select_def query_def split: option.splits)

lemma ensureUser_first:
  assumes h: "supabase (svc w)" and ok: "set (outcomes (db w)) \<subseteq> {Done}"
    and none: "filter (\<lambda>u. user_clerk_user_id u = c) (users (db w)) = []"
  shows "ensureUser c e n w =
     (Inr (fresh_id (db w)),
      w\<lparr>db := (consume (consume (db w)))
              \<lparr>users := users (db w) @
                  [\<lparr> user_id = fresh_id (db w), user_clerk_user_id = c, user_email = e,
                     user_full_name = n, user_last_login_at = clock w \<rparr>],
               next_id := Suc (next_id (db w))\<rparr>\<rparr>)"
proof -
  have n1: "next_outcome (db w) = Done" by (rule all_done_next [OF ok])
  have n2: "next_outcome (consume (db w)) = Done"
    by (rule all_done_next [OF all_done_consume [OF ok]])
  have nb: "\<not> (\<exists>u \<in> set (users (db w)). user_clerk_user_id u = c)"
    using none by (simp add: filter_empty_conv)
  show ?thesis
    using nb by (simp add: ensureUser_def ensureUser_select_done [OF h n1] none
        ensureUser_finish_def insert_user_def request_done [OF n2] Let_def)
qed

lemma ensureUser_again:
  assumes h: "supabase (svc w)" and ok: "set (outcomes (db w)) \<subseteq> {Done}"
    and one: "filter (\<lambda>u. user_clerk_user_id u = c) (users (db w)) = [u]"
  shows "ensureUser c e n w =
     (Inr (user_id u),
      w\<lparr>db := (consume (consume (db w)))
              \<lparr>users := map (\<lambda>u. if user_clerk_user_id u = c
                                  then u\<lparr>user_last_login_at := clock w\<rparr> else u) (users (db w))\<rparr>\<rparr>)"
proof -
  have n1: "next_outcome (db w) = Done" by (rule all_done_next [OF ok])
  have n2: "next_outcome (consume (db w)) = Done"
    by (rule all_done_next [OF all_done_consume [OF ok]])
  show ?thesis
    by (simp add: ensureUser_def ensureUser_select_done [OF h n1] one
        ensureUser_finish_def request_done [OF n2])
qed

lemma filter_touch:
  "filter (\<lambda>u. user_clerk_user_id u = c)
     (map (\<lambda>u. if user_clerk_user_id u = c then u\<lparr>user_last_login_at := t\<rparr> else u) rows)
   = map (\<lambda>u. u\<lparr>user_last_login_at := t\<rparr>) (filter (\<lambda>u. user_clerk_user_id u = c) rows)"
  by (induction rows) simp_all

lemma identity_worlds:
  "supabase (svc anonymous_world)" "users (db anonymous_world) = []"
  "outcomes (db anonymous_world) = []" "next_id (db anonymous_world) = 0"
  "\<not> users_unique (db anonymous_world)"
  "supabase (svc strict_world)" "users (db strict_world) = []"
  "outcomes (db strict_world) = []" "next_id (db strict_world) = 0"
  "users_unique (db strict_world)"
  by (simp_all add: anonymous_world_def strict_world_def boot_def constructor_def browser_env_def
      truthy_def empty_store_def)

lemma overlapped_anonymous:
  "fst (ensureUser_overlapped ''clerk-alice'' ''a@x'' None anonymous_world) = (Inr ''row-0'', Inr ''row-1'')"
  "map user_clerk_user_id (users (db (snd (ensureUser_overlapped ''clerk-alice'' ''a@x'' None anonymous_world))))
     = [''clerk-alice'', ''clerk-alice'']"
  by (simp_all add: ensureUser_overlapped_def ensureUser_select_def ensureUser_finish_def query_def
      insert_user_def request_def next_outcome_def identity_worlds fresh_id_def show_nat_digits
      Let_def consume_def)

lemma overlapped_strict:
  "fst (ensureUser_overlapped ''clerk-alice'' ''a@x'' None strict_world) = (Inr ''row-0'', Inl RemoteError)"
  by (simp_all add: ensureUser_overlapped_def ensureUser_select_def ensureUser_finish_def query_def
      insert_user_def request_def next_outcome_def identity_worlds fresh_id_def show_nat_digits
      Let_def consume_def)

lemma files_world_facts:
  "userContext (svc files_world) = Some alice" "supabase (svc files_world)"
  "next_outcome (db files_world) = Done" "clock files_world = 7"
  "projects (db files_world) = some_projects"
  "design_files (db files_world) =
     [\<lparr> design_id = ''d1'', design_project_id = ''p-old'', design_user_id = ''u-alice'',
        design_file_path = ''index.html'', design_file_type = ''html'', design_content = ''A'',
        design_file_size = 1, design_last_modified = 3 \<rparr>]"
  "project_files (db files_world) =
     [\<lparr> pfile_id = ''f1'', pfile_project_id = ''p-old'', pfile_user_id = ''u-alice'',
        pfile_file_path = ''main.ts'', pfile_content = ''x'', pfile_is_binary = False,
        pfile_mime_type = None, pfile_file_size = 1, pfile_is_deleted = False,
        pfile_deleted_at = None \<rparr>]"
  by (simp_all add: files_world_def setUserContext_def boot_def constructor_def browser_env_def
      truthy_def empty_store_def next_outcome_def)

lemma files_world_deleted:
  "map pfile_id (project_files (db (deleteProjectFile ''p-old'' ''main.ts'' files_world))) = [''f1'']"
  "map pfile_is_deleted (project_files (db (deleteProjectFile ''p-old'' ''main.ts'' files_world))) = [True]"
  "map pfile_deleted_at (project_files (db (deleteProjectFile ''p-old'' ''main.ts'' files_world))) = [Some 7]"
  "map project_status (projects (db (deleteProject ''p-old'' files_world)))
     = [''deleted'', ''deleted'', ''active'', ''active'']"
  by (simp_all add: deleteProjectFile_done [of _ alice] deleteProject_done [of _ alice]
      files_world_facts alice_def some_projects_def)

lemma files_world_read:
  "map pfFilePath (fst (getProjectFiles ''p-old'' files_world)) = [''main.ts'']"
  by (simp add: getProjectFiles_def query_def files_world_facts alice_def project_file_of_def)



lemma queueOperation_quota_taken:
  "localStorage w = None \<or> accepts (queued t d w) \<Longrightarrow>
   queueOperation_quota accepts t d w = (None, queueOperation t d w)"
  by (auto simp: queueOperation_quota_def queueOperation_def setItem_quota_def setItem_def queued_def
      Let_def split: option.splits)

lemma queueOperation_quota_refused:
  "localStorage w \<noteq> None \<Longrightarrow> \<not> accepts (queued t d w) \<Longrightarrow>
   queueOperation_quota accepts t d w =
     (Some StorageError, w\<lparr>svc := (svc w)\<lparr>offlineQueue := queued t d w\<rparr>\<rparr>)"
  by (auto simp: queueOperation_quota_def setItem_quota_def queued_def Let_def split: option.splits)

lemma queued_db [simp]: "queued t d (w\<lparr>db := x\<rparr>) = queued t d w"
  by (simp add: queued_def)

lemma queueOperation_queued: "offlineQueue (svc (queueOperation t d w)) = queued t d w"
  by (simp add: queued_def)

lemma save_quota_absent:
  assumes "userContext (svc w) = None \<or> \<not> supabase (svc w)"
  shows "saveChatMessage_quota accepts m w = queueOperation_quota accepts ''saveChatMessage'' (PChat m) w"
    and "saveDesignFile_quota accepts f w = queueOperation_quota accepts ''saveDesignFile'' (PDesign f) w"
    and "saveProjectFile_quota accepts g w = queueOperation_quota accepts ''saveProjectFile'' (PProject g) w"
  using assms
  by (auto simp: saveChatMessage_quota_def saveDesignFile_quota_def saveProjectFile_quota_def
      split: option.splits)

lemma save_quota_failed:
  assumes "userContext (svc w) \<noteq> None" and "supabase (svc w)" and "next_outcome (db w) \<noteq> Done"
  shows "localStorage w = None \<or> accepts (queued ''saveChatMessage'' (PChat m) w) \<Longrightarrow>
         saveChatMessage_quota accepts m w =
           (None, queueOperation ''saveChatMessage'' (PChat m) (w\<lparr>db := consume (db w)\<rparr>))"
    and "localStorage w = None \<or> accepts (queued ''saveDesignFile'' (PDesign f) w) \<Longrightarrow>
         saveDesignFile_quota accepts f w =
           (None, queueOperation ''saveDesignFile'' (PDesign f) (w\<lparr>db := consume (db w)\<rparr>))"
    and "localStorage w = None \<or> accepts (queued ''saveProjectFile'' (PProject g) w) \<Longrightarrow>
         saveProjectFile_quota accepts g w =
           (None, queueOperation ''saveProjectFile'' (PProject g) (w\<lparr>db := consume (db w)\<rparr>))"
proof -
  obtain ctx where c: "userContext (svc w) = Some ctx" using assms(1) by auto
  have r: "\<And>f. request f (db w) = (next_outcome (db w), consume (db w))"
    by (rule request_failed [OF assms(3)])
  {
    assume s: "localStorage w = None \<or> accepts (queued ''saveChatMessage'' (PChat m) w)"
    have "queueOperation_quota accepts ''saveChatMessage'' (PChat m) (w\<lparr>db := consume (db w)\<rparr>)
            = (None, queueOperation ''saveChatMessage'' (PChat m) (w\<lparr>db := consume (db w)\<rparr>))"
      using s by (intro queueOperation_quota_taken) simp
    then show "saveChatMessage_quota accepts m w =
           (None, queueOperation ''saveChatMessage'' (PChat m) (w\<lparr>db := consume (db w)\<rparr>))"
      using assms(2,3) by (cases "next_outcome (db w)") (simp_all add: saveChatMessage_quota_def c r)
  }
  {
    assume s: "localStorage w = None \<or> accepts (queued ''saveDesignFile'' (PDesign f) w)"
    have "queueOperation_quota accepts ''saveDesignFile'' (PDesign f) (w\<lparr>db := consume (db w)\<rparr>)
            = (None, queueOperation ''saveDesignFile'' (PDesign f) (w\<lparr>db := consume (db w)\<rparr>))"
      using s by (intro queueOperation_quota_taken) simp
    then show "saveDesignFile_quota accepts f w =
           (None, queueOperation ''saveDesignFile'' (PDesign f) (w\<lparr>db := consume (db w)\<rparr>))"
      using assms(2,3) by (cases "next_outcome (db w)") (simp_all add: saveDesignFile_quota_def c r)
  }
  {
    assume s: "localStorage w = None \<or> accepts (queued ''saveProjectFile'' (PProject g) w)"
    have "queueOperation_quota accepts ''saveProjectFile'' (PProject g) (w\<lparr>db := consume (db w)\<rparr>)
            = (None, queueOperation ''saveProjectFile'' (PProject g) (w\<lparr>db := consume (db w)\<rparr>))"
      using s by (intro queueOperation_quota_taken) simp
    then show "saveProjectFile_quota accepts g w =
           (None, queueOperation ''saveProjectFile'' (PProject g) (w\<lparr>db := consume (db w)\<rparr>))"
      using assms(2,3) by (cases "next_outcome (db w)") (simp_all add: saveProjectFile_quota_def c r)
  }
qed

text \<open>With a storage that takes every value the two descriptions of a write agree.\<close>

lemma save_quota_agrees:
  assumes "\<And>q. accepts q"
  shows "saveChatMessage_quota accepts m w = (None, saveChatMessage m w)"
    and "saveDesignFile_quota accepts f w = (None, saveDesignFile f w)"
    and "saveProjectFile_quota accepts g w = (None, saveProjectFile g w)"
  using assms
  by (simp_all add: saveChatMessage_quota_def saveDesignFile_quota_def saveProjectFile_quota_def
      saveChatMessage_def saveDesignFile_def saveProjectFile_def queueOperation_quota_taken
      split: option.splits prod.splits outcome.splits)

text \<open>What the proviso on the storage is for: a refused write rejects the call.\<close>

lemma saveChatMessage_quota_refused:
  assumes "userContext (svc w) = None \<or> \<not> supabase (svc w)"
    and "localStorage w \<noteq> None" and "\<not> accepts (queued ''saveChatMessage'' (PChat m) w)"
  shows "saveChatMessage_quota accepts m w =
           (Some StorageError,
            w\<lparr>svc := (svc w)\<lparr>offlineQueue := queued ''saveChatMessage'' (PChat m) w\<rparr>\<rparr>)"
  using assms(2,3)
  by (simp add: save_quota_absent(1) [OF assms(1)] queueOperation_quota_refused)


lemma saveChatMessage_quota_refused_after_error:
  assumes "userContext (svc w) \<noteq> None" and "supabase (svc w)" and "next_outcome (db w) = Failed"
    and "localStorage w \<noteq> None" and "\<And>q. \<not> accepts q"
  shows "fst (saveChatMessage_quota accepts m w) = Some StorageError"
    and "offlineQueue (svc (snd (saveChatMessage_quota accepts m w))) =
           offlineQueue (svc w) @
             [\<lparr>op_type = ''saveChatMessage'', op_data = PChat m, op_timestamp = clock w\<rparr>,
              \<lparr>op_type = ''saveChatMessage'', op_data = PChat m, op_timestamp = clock w\<rparr>]"
  using assms
  by (auto simp: saveChatMessage_quota_def request_def queueOperation_quota_def setItem_quota_def
      Let_def split: option.splits)

lemma ensureUser_each_bound:
  assumes "supabase (svc w)" and "set (outcomes (db w)) \<subseteq> {Done}"
    and "filter (\<lambda>u. user_clerk_user_id u = c) (users (db w)) = [u]"
  shows "fst (ensureUser_each c args w) = replicate (length args) (Inr (user_id u))
       \<and> map user_id (filter (\<lambda>u. user_clerk_user_id u = c) (users (db (snd (ensureUser_each c args w)))))
           = [user_id u]
       \<and> calls (db (snd (ensureUser_each c args w))) = calls (db w) + 2 * length args"
  using assms
proof (induction args arbitrary: w u)
  case Nil
  then show ?case by simp
next
  case (Cons a rest)
  obtain e n where a: "a = (e, n)" by (cases a)
  note again = ensureUser_again [OF Cons.prems(1) Cons.prems(2) Cons.prems(3), of e n]
  define w1 where "w1 = snd (ensureUser c e n w)"
  have h1: "supabase (svc w1)" using Cons.prems(1) by (simp add: w1_def again)
  have ok1: "set (outcomes (db w1)) \<subseteq> {Done}"
    using all_done_consume [OF all_done_consume [OF Cons.prems(2)]] by (simp add: w1_def again)
  have one: "filter (\<lambda>u. user_clerk_user_id u = c) (users (db w1)) = [u\<lparr>user_last_login_at := clock w\<rparr>]"
    by (simp add: w1_def again filter_touch Cons.prems(3))
  have k: "calls (db w1) = calls (db w) + 2" by (simp add: w1_def again)
  note ih = Cons.IH [OF h1 ok1 one]
  have e: "ensureUser c e n w = (Inr (user_id u), w1)" by (simp add: w1_def again)
  show ?case
    using ih k by (simp add: a e case_prod_unfold)
qed

lemma ensureUser_failed_read:
  "fst (ensureUser_each ''clerk-alice'' [(''a@x'', None), (''a@x'', None)]
     (anonymous_world\<lparr>db := (db anonymous_world)\<lparr>outcomes := [Done, Done, Failed, Done]\<rparr>\<rparr>))
   = [Inr ''row-0'', Inr ''row-1'']"
  by (simp add: ensureUser_def ensureUser_select_def ensureUser_finish_def query_def
      insert_user_def request_def next_outcome_def identity_worlds fresh_id_def show_nat_digits
      Let_def consume_def)

section \<open>Writes that cannot be completed\<close>

text \<open>
  C1, as the claim states it, fails on \<open>saveUserSettings\<close>: without an Identity Context
  the call returns with nothing queued, and with a context, a handle and a failing
  request it again returns with nothing queued. The write is dropped.
\<close>

theorem saveUserSettings_never_queues:
  "userContext (svc anonymous_world) = None
   \<and> offlineQueue (svc (saveUserSettings settings_dark anonymous_world)) = []
   \<and> userContext (svc flaky_world) \<noteq> None \<and> supabase (svc flaky_world)
   \<and> next_outcome (db flaky_world) = Failed
   \<and> offlineQueue (svc (saveUserSettings settings_dark flaky_world)) = []"
  by (simp add: saveUserSettings_svc)

text \<open>
  C1 (amended). For \<open>saveChatMessage\<close>, \<open>saveDesignFile\<close> and \<open>saveProjectFile\<close>, provided
  the local storage is absent or takes the queue with the new entry: if the Identity
  Context is unresolved or the store handle is absent, the operation appends its entry
  to the queue and resolves without sending a request; if a request is sent and fails
  (an error result or a rejected promise), the operation appends its entry to the queue
  and resolves instead of surfacing the remote error. \<open>saveUserSettings\<close> also resolves
  in both situations, but queues nothing: without context or handle it changes nothing at
  all, and after a failed request the service state and the local storage are as before.
\<close>

theorem save_queues_except_settings:
  "(userContext (svc w) = None \<or> \<not> supabase (svc w) \<longrightarrow>
      (localStorage w = None \<or> accepts (queued ''saveChatMessage'' (PChat m) w) \<longrightarrow>
         saveChatMessage_quota accepts m w = (None, saveChatMessage m w)
         \<and> offlineQueue (svc (saveChatMessage m w)) = queued ''saveChatMessage'' (PChat m) w
         \<and> db (saveChatMessage m w) = db w)
    \<and> (localStorage w = None \<or> accepts (queued ''saveDesignFile'' (PDesign f) w) \<longrightarrow>
         saveDesignFile_quota accepts f w = (None, saveDesignFile f w)
         \<and> offlineQueue (svc (saveDesignFile f w)) = queued ''saveDesignFile'' (PDesign f) w
         \<and> db (saveDesignFile f w) = db w)
    \<and> (localStorage w = None \<or> accepts (queued ''saveProjectFile'' (PProject g) w) \<longrightarrow>
         saveProjectFile_quota accepts g w = (None, saveProjectFile g w)
         \<and> offlineQueue (svc (saveProjectFile g w)) = queued ''saveProjectFile'' (PProject g) w
         \<and> db (saveProjectFile g w) = db w)
    \<and> saveUserSettings s w = w)
 \<and> (userContext (svc w) \<noteq> None \<and> supabase (svc w) \<and> next_outcome (db w) \<noteq> Done \<longrightarrow>
      (localStorage w = None \<or> accepts (queued ''saveChatMessage'' (PChat m) w) \<longrightarrow>
         saveChatMessage_quota accepts m w = (None, saveChatMessage m w)
         \<and> offlineQueue (svc (saveChatMessage m w)) = queued ''saveChatMessage'' (PChat m) w
         \<and> db (saveChatMessage m w) = consume (db w))
    \<and> (localStorage w = None \<or> accepts (queued ''saveDesignFile'' (PDesign f) w) \<longrightarrow>
         saveDesignFile_quota accepts f w = (None, saveDesignFile f w)
         \<and> offlineQueue (svc (saveDesignFile f w)) = queued ''saveDesignFile'' (PDesign f) w
         \<and> db (saveDesignFile f w) = consume (db w))
    \<and> (localStorage w = None \<or> accepts (queued ''saveProjectFile'' (PProject g) w) \<longrightarrow>
         saveProjectFile_quota accepts g w = (None, saveProjectFile g w)
         \<and> offlineQueue (svc (saveProjectFile g w)) = queued ''saveProjectFile'' (PProject g) w
         \<and> db (saveProjectFile g w) = consume (db w))
    \<and> svc (saveUserSettings s w) = svc w
    \<and> localStorage (saveUserSettings s w) = localStorage w)"
proof (intro conjI impI)
  assume a: "userContext (svc w) = None \<or> \<not> supabase (svc w)"
  show "saveUserSettings s w = w"
    by (rule saveUserSettings_absent [OF a])
  {
    assume t: "localStorage w = None \<or> accepts (queued ''saveChatMessage'' (PChat m) w)"
    show "saveChatMessage_quota accepts m w = (None, saveChatMessage m w)"
      using t
      by (simp add: save_quota_absent(1) [OF a] queueOperation_quota_taken
          saveChatMessage_absent [OF a])
  }
  {
    assume t: "localStorage w = None \<or> accepts (queued ''saveDesignFile'' (PDesign f) w)"
    show "saveDesignFile_quota accepts f w = (None, saveDesignFile f w)"
      using t
      by (simp add: save_quota_absent(2) [OF a] queueOperation_quota_taken
          saveDesignFile_absent [OF a])
  }
  {
    assume t: "localStorage w = None \<or> accepts (queued ''saveProjectFile'' (PProject g) w)"
    show "saveProjectFile_quota accepts g w = (None, saveProjectFile g w)"
      using t
      by (simp add: save_quota_absent(3) [OF a] queueOperation_quota_taken
          saveProjectFile_absent [OF a])
  }
  show "offlineQueue (svc (saveChatMessage m w)) = queued ''saveChatMessage'' (PChat m) w"
    by (simp add: saveChatMessage_absent [OF a] queued_def)
  show "db (saveChatMessage m w) = db w"
    by (simp add: saveChatMessage_absent [OF a])
  show "offlineQueue (svc (saveDesignFile f w)) = queued ''saveDesignFile'' (PDesign f) w"
    by (simp add: saveDesignFile_absent [OF a] queued_def)
  show "db (saveDesignFile f w) = db w"
    by (simp add: saveDesignFile_absent [OF a])
  show "offlineQueue (svc (saveProjectFile g w)) = queued ''saveProjectFile'' (PProject g) w"
    by (simp add: saveProjectFile_absent [OF a] queued_def)
  show "db (saveProjectFile g w) = db w"
    by (simp add: saveProjectFile_absent [OF a])
next
  assume b: "userContext (svc w) \<noteq> None \<and> supabase (svc w) \<and> next_outcome (db w) \<noteq> Done"
  then have c: "userContext (svc w) \<noteq> None" and h: "supabase (svc w)"
    and r: "next_outcome (db w) \<noteq> Done"
    by simp_all
  show "svc (saveUserSettings s w) = svc w"
    by (rule saveUserSettings_svc)
  show "localStorage (saveUserSettings s w) = localStorage w"
    by (rule saveUserSettings_storage)
  {
    assume t: "localStorage w = None \<or> accepts (queued ''saveChatMessage'' (PChat m) w)"
    show "saveChatMessage_quota accepts m w = (None, saveChatMessage m w)"
      using t by (simp add: save_quota_failed(1) [OF c h r] saveChatMessage_failed [OF c h r])
  }
  {
    assume t: "localStorage w = None \<or> accepts (queued ''saveDesignFile'' (PDesign f) w)"
    show "saveDesignFile_quota accepts f w = (None, saveDesignFile f w)"
      using t by (simp add: save_quota_failed(2) [OF c h r] saveDesignFile_failed [OF c h r])
  }
  {
    assume t: "localStorage w = None \<or> accepts (queued ''saveProjectFile'' (PProject g) w)"
    show "saveProjectFile_quota accepts g w = (None, saveProjectFile g w)"
      using t by (simp add: save_quota_failed(3) [OF c h r] saveProjectFile_failed [OF c h r])
  }
  show "offlineQueue (svc (saveChatMessage m w)) = queued ''saveChatMessage'' (PChat m) w"
    by (simp add: saveChatMessage_failed [OF c h r] queued_def)
  show "db (saveChatMessage m w) = consume (db w)"
    by (simp add: saveChatMessage_failed [OF c h r])
  show "offlineQueue (svc (saveDesignFile f w)) = queued ''saveDesignFile'' (PDesign f) w"
    by (simp add: saveDesignFile_failed [OF c h r] queued_def)
  show "db (saveDesignFile f w) = consume (db w)"
    by (simp add: saveDesignFile_failed [OF c h r])
  show "offlineQueue (svc (saveProjectFile g w)) = queued ''saveProjectFile'' (PProject g) w"
    by (simp add: saveProjectFile_failed [OF c h r] queued_def)
  show "db (saveProjectFile g w) = consume (db w)"
    by (simp add: saveProjectFile_failed [OF c h r])
qed

theorem save_queues_except_settings_witness:
  "userContext (svc anonymous_world) = None
   \<and> fst (saveChatMessage_quota (\<lambda>q. length q \<le> 3) message_m1 anonymous_world) = None
   \<and> length (offlineQueue (svc (snd (saveChatMessage_quota (\<lambda>q. length q \<le> 3) message_m1 anonymous_world)))) = 1
   \<and> fst (saveDesignFile_quota (\<lambda>q. length q \<le> 3) design_index anonymous_world) = None
   \<and> fst (saveProjectFile_quota (\<lambda>q. length q \<le> 3) pfile_main anonymous_world) = None
   \<and> saveUserSettings settings_dark anonymous_world = anonymous_world
   \<and> userContext (svc flaky_world) \<noteq> None \<and> supabase (svc flaky_world)
   \<and> next_outcome (db flaky_world) \<noteq> Done
   \<and> fst (saveChatMessage_quota (\<lambda>q. length q \<le> 3) message_m1 flaky_world) = None
   \<and> length (offlineQueue (svc (snd (saveChatMessage_quota (\<lambda>q. length q \<le> 3) message_m1 flaky_world)))) = 1
   \<and> calls (db (snd (saveChatMessage_quota (\<lambda>q. length q \<le> 3) message_m1 flaky_world)))
       = Suc (calls (db flaky_world))
   \<and> fst (saveDesignFile_quota (\<lambda>q. length q \<le> 3) design_index flaky_world) = None
   \<and> fst (saveProjectFile_quota (\<lambda>q. length q \<le> 3) pfile_main flaky_world) = None"
  using save_queues_except_settings [of anonymous_world "\<lambda>q. length q \<le> 3" message_m1 design_index pfile_main settings_dark]
    save_queues_except_settings [of flaky_world "\<lambda>q. length q \<le> 3" message_m1 design_index pfile_main settings_dark]
  by (simp add: queued_def)


section \<open>Sync status and the guard of the replay\<close>

text \<open>
  C9. \<open>getSyncStatus\<close> answers with the connectivity flag, the current length of the
  queue and whether an Identity Context is set. Nothing is stored for it: the answer
  follows the state through an append to the queue, an offline event and a sign-in.
\<close>

theorem getSyncStatus_derived:
  "online (getSyncStatus w) = isOnline (svc w)
   \<and> queuedOperations (getSyncStatus w) = length (offlineQueue (svc w))
   \<and> authenticated (getSyncStatus w) = (userContext (svc w) \<noteq> None)
   \<and> queuedOperations (getSyncStatus (queueOperation t d w)) = Suc (queuedOperations (getSyncStatus w))
   \<and> online (getSyncStatus (handleOffline w)) = False
   \<and> authenticated (getSyncStatus (setUserContext c w)) = True"
  by (simp add: getSyncStatus_def handleOffline_def setUserContext_def)

text \<open>
  C10. With the connectivity flag offline, or no store handle, or no Identity Context,
  \<open>processOfflineQueue\<close> returns the world it was given: no request is sent, and the
  queue, the rest of the service state, the store and the local storage are unchanged.
\<close>

theorem processOfflineQueue_guard:
  "\<not> isOnline (svc w) \<or> \<not> supabase (svc w) \<or> userContext (svc w) = None \<Longrightarrow>
   processOfflineQueue w = w"
  by (auto simp: processOfflineQueue_def)

theorem processOfflineQueue_guard_witness:
  "\<not> isOnline (svc offline_world)
   \<and> processOfflineQueue offline_world = offline_world
   \<and> userContext (svc (saveChatMessage message_m1 anonymous_world)) = None
   \<and> length (offlineQueue (svc (saveChatMessage message_m1 anonymous_world))) = 1
   \<and> processOfflineQueue (saveChatMessage message_m1 anonymous_world)
       = saveChatMessage message_m1 anonymous_world"
  using processOfflineQueue_guard [of offline_world]
    processOfflineQueue_guard [of "saveChatMessage message_m1 anonymous_world"]
  by (simp add: saveChatMessage_absent)

section \<open>The queue across a page load\<close>

text \<open>
  C2. \<open>queueOperation\<close> and \<open>processOfflineQueue\<close> write the whole queue to the local
  storage, but no code reads it back: the constructor starts every instance with an empty
  queue. Here one write was queued with local storage present; after a page load the
  entry is still in the local storage and the live queue of the new instance is empty.
\<close>

theorem restart_forgets_queue:
  "offlineQueue (svc (saveChatMessage message_m1 anonymous_world)) =
     [\<lparr>op_type = ''saveChatMessage'', op_data = PChat message_m1, op_timestamp = 7\<rparr>]
   \<and> getItem ''supabase_offline_queue'' (restart browser_env (saveChatMessage message_m1 anonymous_world)) =
       Some [\<lparr>op_type = ''saveChatMessage'', op_data = PChat message_m1, op_timestamp = 7\<rparr>]
   \<and> offlineQueue (svc (restart browser_env (saveChatMessage message_m1 anonymous_world))) = []"
  by (simp add: saveChatMessage_absent restart_def constructor_def getItem_def queueOperation_def
      setItem_def Let_def anonymous_world_def boot_def)

section \<open>Replay\<close>



section \<open>A write while the browser is offline\<close>




section \<open>Reads\<close>

text \<open>
  C6. No read touches the queue or the local storage: each \<open>get*\<close> leaves the service
  state and the storage as they were. Whatever calls are run from a new instance, every
  entry of the queue is one that \<open>saveChatMessage\<close>, \<open>saveDesignFile\<close> or
  \<open>saveProjectFile\<close> appended. Without Identity Context or store handle a read answers
  empty at once, sending nothing and changing nothing; after a failed or rejected request
  it answers empty as well. The list-valued reads answer \<open>[]\<close>; \<open>getUserSettings\<close> and
  \<open>getCanvasState\<close>, which return a single value, answer \<open>null\<close>. The reads are total
  functions: there is no branch on which they throw.
\<close>

theorem reads_never_queue:
  "svc (snd (getChatHistory p w)) = svc w \<and> localStorage (snd (getChatHistory p w)) = localStorage w
   \<and> svc (snd (getProjects w)) = svc w \<and> localStorage (snd (getProjects w)) = localStorage w
   \<and> svc (snd (getDesignFiles p w)) = svc w \<and> localStorage (snd (getDesignFiles p w)) = localStorage w
   \<and> svc (snd (getProjectFiles p w)) = svc w \<and> localStorage (snd (getProjectFiles p w)) = localStorage w
   \<and> svc (snd (getUserSettings w)) = svc w \<and> localStorage (snd (getUserSettings w)) = localStorage w
   \<and> svc (snd (getCanvasState p w)) = svc w \<and> localStorage (snd (getCanvasState p w)) = localStorage w
   \<and> (\<forall>operation \<in> set (offlineQueue (svc (run cs (boot e d ls t)))).
         save_entry operation
         \<and> (op_type operation = ''saveChatMessage'' \<or> op_type operation = ''saveDesignFile''
            \<or> op_type operation = ''saveProjectFile''))
   \<and> (userContext (svc w) = None \<or> \<not> supabase (svc w) \<longrightarrow>
         getChatHistory p w = ([], w) \<and> getProjects w = ([], w) \<and> getDesignFiles p w = ([], w)
         \<and> getProjectFiles p w = ([], w) \<and> getUserSettings w = (None, w)
         \<and> getCanvasState p w = (None, w))
   \<and> (next_outcome (db w) \<noteq> Done \<longrightarrow>
         fst (getChatHistory p w) = [] \<and> fst (getProjects w) = [] \<and> fst (getDesignFiles p w) = []
         \<and> fst (getProjectFiles p w) = [] \<and> fst (getUserSettings w) = None
         \<and> fst (getCanvasState p w) = None)"
proof -
  have inv: "list_all save_entry (offlineQueue (svc (run cs (boot e d ls t))))"
    by (rule run_entries [OF boot_entries])
  have q: "\<forall>operation \<in> set (offlineQueue (svc (run cs (boot e d ls t)))).
         save_entry operation
         \<and> (op_type operation = ''saveChatMessage'' \<or> op_type operation = ''saveDesignFile''
            \<or> op_type operation = ''saveProjectFile'')"
    using inv save_entry_names by (auto simp: list_all_iff)
  have a: "userContext (svc w) = None \<or> \<not> supabase (svc w) \<longrightarrow>
         getChatHistory p w = ([], w) \<and> getProjects w = ([], w) \<and> getDesignFiles p w = ([], w)
         \<and> getProjectFiles p w = ([], w) \<and> getUserSettings w = (None, w)
         \<and> getCanvasState p w = (None, w)"
    using reads_absent [of w] by blast
  have f: "next_outcome (db w) \<noteq> Done \<longrightarrow>
         fst (getChatHistory p w) = [] \<and> fst (getProjects w) = [] \<and> fst (getDesignFiles p w) = []
         \<and> fst (getProjectFiles p w) = [] \<and> fst (getUserSettings w) = None
         \<and> fst (getCanvasState p w) = None"
    using reads_failed [of w] by blast
  show ?thesis
    using q a f by (simp only: reads_svc reads_storage simp_thms) 
qed

theorem reads_never_queue_witness:
  "userContext (svc anonymous_world) = None
   \<and> getDesignFiles ''p1'' anonymous_world = ([], anonymous_world)
   \<and> next_outcome (db flaky_world) \<noteq> Done
   \<and> fst (getDesignFiles ''p1'' flaky_world) = []
   \<and> list_all save_entry
       (offlineQueue (svc (run [SaveChatMessage message_m1, GetDesignFiles ''p1'']
          (boot browser_env empty_store (Some Map.empty) 7))))
   \<and> length (offlineQueue (svc (run [SaveChatMessage message_m1, GetDesignFiles ''p1'']
          (boot browser_env empty_store (Some Map.empty) 7)))) = 1"
proof -
  note t1 = reads_never_queue [of "''p1''" anonymous_world "[]" browser_env empty_store "Some Map.empty" 7]
  note t2 = reads_never_queue [of "''p1''" flaky_world "[SaveChatMessage message_m1, GetDesignFiles ''p1'']"
      browser_env empty_store "Some Map.empty" 7]
  have a: "getDesignFiles ''p1'' anonymous_world = ([], anonymous_world)"
    using t1 by simp
  have b: "fst (getDesignFiles ''p1'' flaky_world) = []"
    using t2 by simp
  have c: "list_all save_entry
       (offlineQueue (svc (run [SaveChatMessage message_m1, GetDesignFiles ''p1'']
          (boot browser_env empty_store (Some Map.empty) 7))))"
    using t2 by (simp only: list_all_iff) blast
  have d: "length (offlineQueue (svc (run [SaveChatMessage message_m1, GetDesignFiles ''p1'']
          (boot browser_env empty_store (Some Map.empty) 7)))) = 1"
    by (simp add: run_def anonymous_world_def [symmetric] reads_svc saveChatMessage_absent)
  show ?thesis
    using a b c d by simp
qed


text \<open>
  C7. \<open>getProjects\<close> returns only rows of the store that belong to the current Identity
  Context and have status \<open>active\<close>, most recently updated first, and at most 50 of
  them. When the request succeeds and no more than 50 rows qualify, all of them are
  returned.
\<close>

theorem getProjects_active_recent_capped:
  "length (fst (getProjects w)) \<le> 50
   \<and> (\<forall>r \<in> set (fst (getProjects w)).
         r \<in> set (projects (db w)) \<and> project_status r = ''active''
         \<and> map_option userId (userContext (svc w)) = Some (project_user_id r))
   \<and> sorted_wrt (\<lambda>a b. project_updated_at b \<le> project_updated_at a) (fst (getProjects w))
   \<and> (userContext (svc w) = Some ctx \<and> supabase (svc w) \<and> next_outcome (db w) = Done
        \<and> length (filter (\<lambda>r. project_user_id r = userId ctx \<and> project_status r = ''active'')
                    (projects (db w))) \<le> 50
      \<longrightarrow> set (fst (getProjects w)) =
            {r \<in> set (projects (db w)). project_user_id r = userId ctx \<and> project_status r = ''active''})"
proof (intro conjI ballI impI)
  show "length (fst (getProjects w)) \<le> 50"
    using getProjects_cases [of w] by (elim disjE exE conjE) simp_all
next
  fix r assume r: "r \<in> set (fst (getProjects w))"
  then obtain ctx where c: "userContext (svc w) = Some ctx"
    and e: "fst (getProjects w) =
        take 50 (order_desc project_updated_at
          (filter (\<lambda>r. project_user_id r = userId ctx \<and> project_status r = ''active'')
             (projects (db w))))"
    using getProjects_cases [of w] by auto
  have "r \<in> set (filter (\<lambda>r. project_user_id r = userId ctx \<and> project_status r = ''active'')
             (projects (db w)))"
    using r e by (auto dest: in_set_takeD)
  then show "r \<in> set (projects (db w))" and "project_status r = ''active''"
    and "map_option userId (userContext (svc w)) = Some (project_user_id r)"
    using c by simp_all
next
  show "sorted_wrt (\<lambda>a b. project_updated_at b \<le> project_updated_at a) (fst (getProjects w))"
    using getProjects_cases [of w]
    by (elim disjE exE conjE) (simp_all add: sorted_wrt_take order_desc_sorted)
next
  assume a: "userContext (svc w) = Some ctx \<and> supabase (svc w) \<and> next_outcome (db w) = Done
        \<and> length (filter (\<lambda>r. project_user_id r = userId ctx \<and> project_status r = ''active'')
                    (projects (db w))) \<le> 50"
  then show "set (fst (getProjects w)) =
            {r \<in> set (projects (db w)). project_user_id r = userId ctx \<and> project_status r = ''active''}"
    by (simp add: getProjects_done)
qed

theorem getProjects_witness:
  "userContext (svc projects_world) = Some alice \<and> supabase (svc projects_world)
   \<and> next_outcome (db projects_world) = Done
   \<and> length (filter (\<lambda>r. project_user_id r = userId alice \<and> project_status r = ''active'')
        (projects (db projects_world))) \<le> 50
   \<and> map project_id (fst (getProjects projects_world)) = [''p-new'', ''p-old'']
   \<and> length (fst (getProjects projects_world)) \<le> 50
   \<and> sorted_wrt (\<lambda>a b. project_updated_at b \<le> project_updated_at a) (fst (getProjects projects_world))
   \<and> set (fst (getProjects projects_world)) =
        {r \<in> set (projects (db projects_world)).
           project_user_id r = userId alice \<and> project_status r = ''active''}"
proof -
  note t = getProjects_active_recent_capped [of projects_world alice]
  have a: "length (fst (getProjects projects_world)) \<le> 50"
    using t by (rule conjunct1)
  have b: "sorted_wrt (\<lambda>a b. project_updated_at b \<le> project_updated_at a) (fst (getProjects projects_world))"
    using t by (elim conjE)
  have len: "length (filter (\<lambda>r. project_user_id r = userId alice \<and> project_status r = ''active'')
        (projects (db projects_world))) \<le> 50"
    by (simp add: projects_world_facts some_projects_def alice_def)
  have c: "set (fst (getProjects projects_world)) =
        {r \<in> set (projects (db projects_world)).
           project_user_id r = userId alice \<and> project_status r = ''active''}"
    using t projects_world_facts(1,2,3) len by blast
  show ?thesis
    by (intro conjI) (fact projects_world_facts len getProjects_projects_world a b c)+
qed


section \<open>Deletes\<close>

text \<open>
  C8. With Identity Context and handle present and the request succeeding:
  \<open>deleteProjectFile\<close> keeps every row (same ids, projects, paths and contents) and
  sets, on the rows of that project, path and owner, the deleted flag and the deletion
  instant, and a following \<open>getProjectFiles\<close> of the project returns no file with that
  path; \<open>deleteDesignFile\<close> removes the rows of that project, path and owner from the
  table; \<open>deleteProject\<close> keeps every row and sets the status of the owner's project
  to \<open>deleted\<close>.
\<close>

theorem delete_asymmetry:
  assumes c: "userContext (svc w) = Some ctx" and h: "supabase (svc w)"
    and n: "next_outcome (db w) = Done"
  shows "map (\<lambda>r. (pfile_id r, pfile_project_id r, pfile_file_path r, pfile_content r))
             (project_files (db (deleteProjectFile p f w)))
           = map (\<lambda>r. (pfile_id r, pfile_project_id r, pfile_file_path r, pfile_content r))
               (project_files (db w))
       \<and> (\<forall>r \<in> set (project_files (db (deleteProjectFile p f w))).
             pfile_project_id r = p \<and> pfile_file_path r = f \<and> pfile_user_id r = userId ctx
             \<longrightarrow> pfile_is_deleted r \<and> pfile_deleted_at r = Some (clock w))
       \<and> (\<forall>g \<in> set (fst (getProjectFiles p (deleteProjectFile p f w))). pfFilePath g \<noteq> f)
       \<and> design_files (db (deleteDesignFile p f w)) =
           filter (\<lambda>r. \<not> (design_project_id r = p \<and> design_file_path r = f \<and> design_user_id r = userId ctx))
             (design_files (db w))
       \<and> map (\<lambda>r. (project_id r, project_user_id r, project_name r)) (projects (db (deleteProject p w)))
           = map (\<lambda>r. (project_id r, project_user_id r, project_name r)) (projects (db w))
       \<and> (\<forall>r \<in> set (projects (db (deleteProject p w))).
             project_id r = p \<and> project_user_id r = userId ctx \<longrightarrow> project_status r = ''deleted'')"
proof (intro conjI ballI impI)
  have pf: "project_files (db (deleteProjectFile p f w)) =
      map (\<lambda>r. if pfile_project_id r = p \<and> pfile_file_path r = f \<and> pfile_user_id r = userId ctx
               then r\<lparr>pfile_is_deleted := True, pfile_deleted_at := Some (clock w)\<rparr> else r)
        (project_files (db w))"
    by (simp add: deleteProjectFile_done [OF c h n])
  have pr: "projects (db (deleteProject p w)) =
      map (\<lambda>r. if project_id r = p \<and> project_user_id r = userId ctx
               then r\<lparr>project_status := ''deleted''\<rparr> else r)
        (projects (db w))"
    by (simp add: deleteProject_done [OF c h n])
  show "map (\<lambda>r. (pfile_id r, pfile_project_id r, pfile_file_path r, pfile_content r))
             (project_files (db (deleteProjectFile p f w)))
           = map (\<lambda>r. (pfile_id r, pfile_project_id r, pfile_file_path r, pfile_content r))
               (project_files (db w))"
    unfolding pf by (rule soft_delete_rows)
  show "map (\<lambda>r. (project_id r, project_user_id r, project_name r)) (projects (db (deleteProject p w)))
           = map (\<lambda>r. (project_id r, project_user_id r, project_name r)) (projects (db w))"
    unfolding pr by (rule status_delete_rows)
  show "design_files (db (deleteDesignFile p f w)) =
           filter (\<lambda>r. \<not> (design_project_id r = p \<and> design_file_path r = f \<and> design_user_id r = userId ctx))
             (design_files (db w))"
    by (simp add: deleteDesignFile_done [OF c h n])
  {
    fix r
    assume m: "r \<in> set (project_files (db (deleteProjectFile p f w)))"
      and k: "pfile_project_id r = p \<and> pfile_file_path r = f \<and> pfile_user_id r = userId ctx"
    from soft_delete_marked [OF m [unfolded pf]] k
    show "pfile_is_deleted r" and "pfile_deleted_at r = Some (clock w)"
      by simp_all
  }
  {
    fix r
    assume m: "r \<in> set (projects (db (deleteProject p w)))"
      and k: "project_id r = p \<and> project_user_id r = userId ctx"
    from status_delete_marked [OF m [unfolded pr]] k
    show "project_status r = ''deleted''"
      by simp
  }
  {
    fix g
    assume g: "g \<in> set (fst (getProjectFiles p (deleteProjectFile p f w)))"
    have c2: "userContext (svc (deleteProjectFile p f w)) = Some ctx"
      by (simp add: deleteProjectFile_done [OF c h n] c)
    from getProjectFiles_members [OF g] c2
    obtain r where r: "r \<in> set (project_files (db (deleteProjectFile p f w)))"
      and gr: "g = project_file_of r" and rp: "pfile_project_id r = p"
      and ru: "pfile_user_id r = userId ctx" and nd: "\<not> pfile_is_deleted r"
      by auto
    have "pfile_file_path r \<noteq> f"
      using soft_delete_marked [OF r [unfolded pf] rp _ ru] nd by blast
    then show "pfFilePath g \<noteq> f"
      by (simp add: gr project_file_of_def)
  }
qed


theorem delete_asymmetry_witness:
  "userContext (svc files_world) = Some alice \<and> supabase (svc files_world)
   \<and> next_outcome (db files_world) = Done
   \<and> map pfFilePath (fst (getProjectFiles ''p-old'' files_world)) = [''main.ts'']
   \<and> map pfile_id (project_files (db (deleteProjectFile ''p-old'' ''main.ts'' files_world))) = [''f1'']
   \<and> map pfile_is_deleted (project_files (db (deleteProjectFile ''p-old'' ''main.ts'' files_world))) = [True]
   \<and> map pfile_deleted_at (project_files (db (deleteProjectFile ''p-old'' ''main.ts'' files_world))) = [Some 7]
   \<and> list_all (\<lambda>g. pfFilePath g \<noteq> ''main.ts'')
        (fst (getProjectFiles ''p-old'' (deleteProjectFile ''p-old'' ''main.ts'' files_world)))
   \<and> length (design_files (db files_world)) = 1
   \<and> design_files (db (deleteDesignFile ''p-old'' ''index.html'' files_world)) = []
   \<and> map project_status (projects (db (deleteProject ''p-old'' files_world)))
       = [''deleted'', ''deleted'', ''active'', ''active'']"
proof -
  note t = delete_asymmetry [OF files_world_facts(1) files_world_facts(2) files_world_facts(3)]
  have a: "list_all (\<lambda>g. pfFilePath g \<noteq> ''main.ts'')
        (fst (getProjectFiles ''p-old'' (deleteProjectFile ''p-old'' ''main.ts'' files_world)))"
    using t [of "''p-old''" "''main.ts''"] by (simp only: list_all_iff) blast
  have b: "design_files (db (deleteDesignFile ''p-old'' ''index.html'' files_world)) =
             filter (\<lambda>r. \<not> (design_project_id r = ''p-old'' \<and> design_file_path r = ''index.html''
                               \<and> design_user_id r = userId alice))
               (design_files (db files_world))"
    using t [of "''p-old''" "''index.html''"] by (elim conjE)
  have b': "design_files (db (deleteDesignFile ''p-old'' ''index.html'' files_world)) = []"
    unfolding b by (simp add: files_world_facts alice_def)
  have l: "length (design_files (db files_world)) = 1"
    by (simp add: files_world_facts)
  show ?thesis
    by (intro conjI) (fact files_world_facts files_world_deleted files_world_read a b' l)+
qed


section \<open>Identity binding\<close>

text \<open>
  C4, as the claim states it, fails: \<open>ensureUser\<close> is a select followed, after an
  \<open>await\<close>, by an insert, not one atomic upsert. When two first-sight invocations for
  the same external id both finish their select before either insert is sent, a table
  without a uniqueness constraint ends with two rows and the two callers get different
  internal ids; a table with the constraint rejects the second insert and the second
  caller gets the error instead of the id.
\<close>

theorem ensureUser_race:
  "fst (ensureUser_overlapped ''clerk-alice'' ''a@x'' None anonymous_world) = (Inr ''row-0'', Inr ''row-1'')
   \<and> map user_clerk_user_id
        (users (db (snd (ensureUser_overlapped ''clerk-alice'' ''a@x'' None anonymous_world))))
       = [''clerk-alice'', ''clerk-alice'']
   \<and> fst (ensureUser_overlapped ''clerk-alice'' ''a@x'' None strict_world) = (Inr ''row-0'', Inl RemoteError)"
  by (simp add: overlapped_anonymous overlapped_strict)

text \<open>
  C4 (amended). \<open>ensureUser\<close> is a read by external id followed by a second request (an
  insert when the read gave no single row, else an update of the last login), not one
  atomic upsert. On a store that holds at most one row for the external id, and with
  every request succeeding, any number of invocations for that id made one after the
  other (at least one) all return the same internal id, that of the row there was or of
  the row the first invocation inserts, and leave exactly one row for the external id;
  each invocation sends two requests.
\<close>

theorem ensureUser_sequential:
  assumes h: "supabase (svc w)" and ok: "set (outcomes (db w)) \<subseteq> {Done}"
    and key: "length (filter (\<lambda>u. user_clerk_user_id u = c) (users (db w))) \<le> 1"
    and some: "args \<noteq> []"
  shows "fst (ensureUser_each c args w) = replicate (length args) (Inr (bound_id c (db w)))
       \<and> map user_id (filter (\<lambda>u. user_clerk_user_id u = c) (users (db (snd (ensureUser_each c args w)))))
           = [bound_id c (db w)]
       \<and> calls (db (snd (ensureUser_each c args w))) = calls (db w) + 2 * length args"
proof (cases "filter (\<lambda>u. user_clerk_user_id u = c) (users (db w))")
  case Nil
  obtain e n rest where args: "args = (e, n) # rest" using some by (cases args) auto
  define row where "row = \<lparr> user_id = fresh_id (db w), user_clerk_user_id = c, user_email = e,
                     user_full_name = n, user_last_login_at = clock w \<rparr>"
  define w1 where "w1 = snd (ensureUser c e n w)"
  note first = ensureUser_first [OF h ok Nil, of e n]
  have h1: "supabase (svc w1)" using h by (simp add: w1_def first)
  have ok1: "set (outcomes (db w1)) \<subseteq> {Done}"
    using all_done_consume [OF all_done_consume [OF ok]] by (simp add: w1_def first)
  have one: "filter (\<lambda>u. user_clerk_user_id u = c) (users (db w1)) = [row]"
    using Nil by (simp add: w1_def first row_def)
  have k: "calls (db w1) = calls (db w) + 2" by (simp add: w1_def first)
  have e: "ensureUser c e n w = (Inr (fresh_id (db w)), w1)" by (simp add: w1_def first)
  have b: "bound_id c (db w) = fresh_id (db w)" by (simp add: bound_id_def Nil)
  have i: "user_id row = fresh_id (db w)" by (simp add: row_def)
  note rest = ensureUser_each_bound [OF h1 ok1 one, of rest]
  show ?thesis
    using rest k by (simp add: args e b i case_prod_unfold)
next
  case (Cons u us)
  then have one: "filter (\<lambda>u. user_clerk_user_id u = c) (users (db w)) = [u]"
    using key by simp
  have b: "bound_id c (db w) = user_id u" by (simp add: bound_id_def one)
  show ?thesis
    using ensureUser_each_bound [OF h ok one, of args] by (simp add: b)
qed

theorem ensureUser_sequential_witness:
  "supabase (svc anonymous_world) \<and> set (outcomes (db anonymous_world)) \<subseteq> {Done}
   \<and> length (filter (\<lambda>u. user_clerk_user_id u = ''clerk-alice'') (users (db anonymous_world))) \<le> 1
   \<and> [(''a@x'', None), (''alice@x'', Some ''Alice''), (''a@x'', None)] \<noteq> []
   \<and> fst (ensureUser_each ''clerk-alice'' [(''a@x'', None), (''alice@x'', Some ''Alice''), (''a@x'', None)]
        anonymous_world) = [Inr ''row-0'', Inr ''row-0'', Inr ''row-0'']
   \<and> map user_id (filter (\<lambda>u. user_clerk_user_id u = ''clerk-alice'')
        (users (db (snd (ensureUser_each ''clerk-alice''
           [(''a@x'', None), (''alice@x'', Some ''Alice''), (''a@x'', None)] anonymous_world)))))
       = [''row-0'']"
  using ensureUser_sequential [of anonymous_world "''clerk-alice''"
      "[(''a@x'', None), (''alice@x'', Some ''Alice''), (''a@x'', None)]"]
  by (simp add: identity_worlds bound_id_def fresh_id_def show_nat_digits numeral_3_eq_3)


end
